theory Spec2Isabelle
  imports Complex_Main "HOL-Library.Log_Nat"
begin

section \<open>Numbers, instants and the host clock\<close>

text \<open>
  The monitor (\<^verbatim>\<open>WalletMonitorServiceNew\<close>) and the push hub (\<^verbatim>\<open>WebSocketService\<close>) are
  embedded as pure functions over explicit state.

  A JavaScript \<^verbatim>\<open>number\<close> is a double, modelled by the rational it stands for. A number
  read from JSON, a literal, a quotient and a difference are rounded to the nearest double,
  ties to even, as the host rounds them (\<^verbatim>\<open>toDouble\<close> below): the lamport balances over
  \<^verbatim>\<open>1e9\<close>, the change of SOL, the token amounts and their change, and the literal
  \<^verbatim>\<open>0.000001\<close> the changes are compared with. Negation, \<^verbatim>\<open>Math.abs\<close> and comparisons are
  exact on doubles. Infinities and \<^verbatim>\<open>NaN\<close> from overflow are not modelled: lamports and
  token amounts come from 64-bit counters and stay far below \<open>2\<^sup>1\<^sup>0\<^sup>2\<^sup>4\<close>. The sum
  \<^verbatim>\<open>realizedPnl += tradePnl\<close> is not rounded, and a decimal string of the store is the
  number written to it; no branch reads either.

  A \<^verbatim>\<open>Date\<close> is its epoch value in milliseconds. The host's time zone is the value its
  \<^verbatim>\<open>Date.getTimezoneOffset()\<close> returns (minutes, positive west of Greenwich), taken as a
  constant of the host; a host whose offset changes with daylight saving is outside the
  model.
\<close>

type_synonym number = rat
type_synonym instant = int

text \<open>
  Rounding to a double. \<open>binade x\<close> is the exponent \<open>e\<close> with \<open>2\<^sup>e \<le> x < 2\<^sup>e\<^sup>+\<^sup>1\<close> of a positive
  \<open>x\<close>, found from the bit lengths of numerator and denominator, which pin it down to two
  candidates. A double has 53 significant bits, so its last place is worth
  \<open>2\<^sup>e\<^sup>-\<^sup>5\<^sup>2\<close>, and never less than \<open>2\<^sup>-\<^sup>1\<^sup>0\<^sup>7\<^sup>4\<close>; the value is rounded to a multiple of that, a tie
  to the even multiple.
\<close>

definition pow2 :: "int \<Rightarrow> rat" where
  "pow2 e = (if e \<ge> 0 then 2 ^ nat e else 1 / 2 ^ nat (- e))"

definition binade :: "rat \<Rightarrow> int" where
  "binade x =
     (let (p, q) = quotient_of x;
          d = bitlen p - bitlen q
      in if pow2 d \<le> x then d else d - 1)"

definition roundHalfEven :: "rat \<Rightarrow> int" where
  "roundHalfEven x =
     (let f = \<lfloor>x\<rfloor>;
          r = x - of_int f
      in if r < 1 / 2 then f
         else if r > 1 / 2 then f + 1
         else if even f then f else f + 1)"

definition toDouble :: "rat \<Rightarrow> number" where
  "toDouble x =
     (if x = 0 then 0
      else
        let a = \<bar>x\<bar>;
            e = binade a;
            ulp = pow2 (max (e - 52) (- 1074))
        in sgn x * of_int (roundHalfEven (a / ulp)) * ulp)"

text \<open>The operators \<^verbatim>\<open>-\<close> and \<^verbatim>\<open>/\<close> on numbers, and the literal \<^verbatim>\<open>0.000001\<close>.\<close>

definition jsSub :: "number \<Rightarrow> number \<Rightarrow> number" where
  "jsSub a b = toDouble (a - b)"

definition jsDiv :: "number \<Rightarrow> number \<Rightarrow> number" where
  "jsDiv a b = toDouble (a / b)"

definition negligible :: number where
  "negligible = toDouble (1 / 1000000)"

definition PST_OFFSET :: int where
  "PST_OFFSET = - 8"

definition msPerDay :: int where
  "msPerDay = 86400000"

text \<open>\<^verbatim>\<open>Date.prototype.setHours(h, m, s, ms)\<close>: the fields of the host's local time are
  replaced, the local calendar day is kept.\<close>

definition setHours :: "int \<Rightarrow> instant \<Rightarrow> int \<Rightarrow> int \<Rightarrow> int \<Rightarrow> int \<Rightarrow> instant" where
  "setHours tz d h m s ms =
     (let localTime = d - tz * 60000;
          localDay = localTime - localTime mod msPerDay
      in localDay + h * 3600000 + m * 60000 + s * 1000 + ms + tz * 60000)"

definition getPSTDate :: "int \<Rightarrow> instant \<Rightarrow> instant" where
  "getPSTDate tz date =
     (let utc = date + tz * 60000
      in utc + 3600000 * PST_OFFSET)"

definition getPSTStartOfDay :: "int \<Rightarrow> instant \<Rightarrow> instant" where
  "getPSTStartOfDay tz date = setHours tz (getPSTDate tz date) 0 0 0 0"

definition getPSTEndOfDay :: "int \<Rightarrow> instant \<Rightarrow> instant" where
  "getPSTEndOfDay tz date = setHours tz (getPSTDate tz date) 23 59 59 999"

text \<open>The reference day of an instant: the day of the fixed offset UTC-8 that contains it,
  as the two instants at which that day starts and ends.\<close>

definition utc8DayStart :: "instant \<Rightarrow> instant" where
  "utc8DayStart t = (t - 8 * 3600000) - (t - 8 * 3600000) mod msPerDay + 8 * 3600000"

definition utc8DayEnd :: "instant \<Rightarrow> instant" where
  "utc8DayEnd t = utc8DayStart t + msPerDay - 1"


section \<open>Data of the monitor\<close>

text \<open>
  Rows of the three tables the monitor and the hub touch (\<^verbatim>\<open>users\<close>, \<^verbatim>\<open>trades\<close>,
  \<^verbatim>\<open>pnl_records\<close>), with the columns the code reads or writes. Decimal columns travel as
  strings written by \<^verbatim>\<open>toString\<close> and read by \<^verbatim>\<open>parseFloat\<close>; the model keeps the number.
  A nullable column is an option. The lamports and \<^verbatim>\<open>uiAmount\<close>s of a transaction are the
  numbers written in the RPC answer; they become doubles where the code reads them.
\<close>

record user =
  u_id :: nat
  u_displayName :: string
  u_walletAddress :: string
  u_isLive :: bool
  u_lastActive :: "instant option"

record tokenBalance =
  tb_accountIndex :: nat
  tb_mint :: string
  tb_owner :: "string option"
  tb_uiAmount :: "number option"

record txMeta =
  m_err :: "string option"
  m_preBalances :: "int list"
  m_postBalances :: "int list"
  m_preTokenBalances :: "tokenBalance list"
  m_postTokenBalances :: "tokenBalance list"

record parsedTx =
  tx_meta :: "txMeta option"
  tx_accountKeys :: "string list"

record trade =
  t_userId :: "nat option"
  t_signature :: string
  t_walletAddress :: string
  t_tokenA :: string
  t_tokenB :: string
  t_type :: string
  t_amountA :: number
  t_amountB :: number
  t_priceUsd :: number
  t_platform :: string
  t_txFees :: number
  t_timestamp :: instant
  t_rawData :: parsedTx
  t_tradePnl :: number

record pnlRecord =
  p_userId :: "nat option"
  p_walletAddress :: string
  p_date :: instant
  p_startBalance :: number
  p_endBalance :: "number option"
  p_realizedPnl :: number
  p_totalTrades :: int
  p_lastTradeId :: "nat option"
  p_createdAt :: instant
  p_updatedAt :: instant

text \<open>The in-memory maps of the service: \<^verbatim>\<open>activeWallets\<close> and \<^verbatim>\<open>dailyPnLCache\<close>.\<close>

record walletInfo =
  w_userId :: "nat option"
  w_lastSignature :: "string option"

record pnlCache =
  c_date :: instant
  c_startBalance :: number
  c_currentBalance :: number
  c_realizedPnl :: number
  c_totalTrades :: int

record tokenChange =
  tc_mint :: string
  tc_preAmount :: number
  tc_postAmount :: number
  tc_change :: number

text \<open>The payload of the \<^verbatim>\<open>pnl\<close> event and the three events of the emitter.\<close>

record pnlUpdate =
  pe_date :: instant
  pe_startBalance :: number
  pe_currentBalance :: number
  pe_realizedPnl :: number
  pe_totalTrades :: int
  pe_lastTradeId :: "nat option"
  pe_timestamp :: instant

record balanceUpdate =
  be_solBalance :: number
  be_tokens :: "(string \<times> number) list"
  be_timestamp :: instant

datatype event =
    TradeEvent string nat trade
  | BalanceEvent string balanceUpdate
  | PnlEvent string pnlUpdate

text \<open>
  The state of the service and of the store behind it. \<^verbatim>\<open>trades\<close> rows carry their
  identity column; \<^verbatim>\<open>emitted\<close> is the log of the events handed to the emitter, oldest
  first.
\<close>

record monitor =
  activeWallets :: "string \<rightharpoonup> walletInfo"
  dailyPnLCache :: "string \<rightharpoonup> pnlCache"
  processedTransactions :: "string set"
  users :: "user list"
  trades :: "(nat \<times> trade) list"
  nextTradeId :: nat
  pnlRecords :: "pnlRecord list"
  emitted :: "event list"

text \<open>
  What the service cannot decide itself: the clock and zone of the host, the answer of the
  RPC node, which statement the database rejects, and the \<^verbatim>\<open>insertId\<close> the driver reports
  for an insert. \<^verbatim>\<open>new Date()\<close> is read once per call.
\<close>

datatype error = DbError | RpcError

datatype dbOp =
    SelectTrade string
  | UpsertTrade trade
  | SelectPnl string
  | SelectLastPnl string
  | InsertPnl string
  | UpdatePnl string
  | UpdateUser nat

record env =
  now :: instant
  tzOffset :: int
  getParsedTransaction :: "string \<Rightarrow> error + parsedTx option"
  dbFails :: "dbOp \<Rightarrow> bool"
  insertId :: "nat option"

definition WSOL :: string where
  "WSOL = ''So11111111111111111111111111111111111111112''"

section \<open>Helpers of the language\<close>

text \<open>\<^verbatim>\<open>Array.prototype.findIndex\<close>, with \<open>None\<close> for \<open>-1\<close>; \<^verbatim>\<open>Array.prototype.find\<close>;
  an indexed read that yields \<open>None\<close> for \<^verbatim>\<open>undefined\<close>.\<close>

fun findIndex :: "('a \<Rightarrow> bool) \<Rightarrow> 'a list \<Rightarrow> nat option" where
  "findIndex P [] = None"
| "findIndex P (x # xs) = (if P x then Some 0 else map_option Suc (findIndex P xs))"

fun nthOpt :: "'a list \<Rightarrow> nat \<Rightarrow> 'a option" where
  "nthOpt [] i = None"
| "nthOpt (x # xs) 0 = Some x"
| "nthOpt (x # xs) (Suc i) = nthOpt xs i"

text \<open>A \<^verbatim>\<open>for\<close> loop whose body may throw: the first exception leaves the loop with the
  state reached so far.\<close>

fun forEach :: "('a \<Rightarrow> 's \<Rightarrow> error option \<times> 's) \<Rightarrow> 'a list \<Rightarrow> 's \<Rightarrow> error option \<times> 's" where
  "forEach f [] s = (None, s)"
| "forEach f (x # xs) s =
     (case f x s of
        (None, s') \<Rightarrow> forEach f xs s'
      | (Some e, s') \<Rightarrow> (Some e, s'))"

text \<open>\<^verbatim>\<open>ORDER BY key DESC LIMIT 1\<close>: a row of greatest key, the earliest such row of the table
  where several tie (SQL leaves the choice open).\<close>

fun latestBy :: "('a \<Rightarrow> int) \<Rightarrow> 'a list \<Rightarrow> 'a option" where
  "latestBy k [] = None"
| "latestBy k (x # xs) =
     (case latestBy k xs of
        None \<Rightarrow> Some x
      | Some y \<Rightarrow> if k x < k y then Some y else Some x)"

section \<open>Daily PnL\<close>

definition emit :: "event \<Rightarrow> monitor \<Rightarrow> monitor" where
  "emit ev s = s\<lparr>emitted := emitted s @ [ev]\<rparr>"

definition selectPnl :: "string \<Rightarrow> instant \<Rightarrow> monitor \<Rightarrow> pnlRecord list" where
  "selectPnl walletAddress day s =
     filter (\<lambda>r. p_walletAddress r = walletAddress \<and> p_date r = day) (pnlRecords s)"

definition selectLastPnl :: "string \<Rightarrow> monitor \<Rightarrow> pnlRecord option" where
  "selectLastPnl walletAddress s =
     latestBy p_date (filter (\<lambda>r. p_walletAddress r = walletAddress) (pnlRecords s))"

definition lookupUserId :: "monitor \<Rightarrow> string \<Rightarrow> nat option" where
  "lookupUserId s walletAddress =
     (case activeWallets s walletAddress of None \<Rightarrow> None | Some wi \<Rightarrow> w_userId wi)"

text \<open>
  \<^verbatim>\<open>initializeDailyPnL\<close>. When today's row exists nothing is done: no write and no cache
  entry. Otherwise the start balance is the end balance of the wallet's latest row, or the
  balance passed in when there is no row or its end balance is null; the row is inserted
  with \<^verbatim>\<open>endBalance: currentBalance.toString()\<close> and the cache entry is set.
\<close>

definition initializeDailyPnL :: "env \<Rightarrow> string \<Rightarrow> number \<Rightarrow> monitor \<Rightarrow> error option \<times> monitor" where
  "initializeDailyPnL e walletAddress currentBalance s =
     (let today = getPSTStartOfDay (tzOffset e) (now e)
      in if dbFails e (SelectPnl walletAddress) then (Some DbError, s)
         else if selectPnl walletAddress today s = [] then
           (if dbFails e (SelectLastPnl walletAddress) then (Some DbError, s)
            else
              let startBalance =
                    (case selectLastPnl walletAddress s of
                       None \<Rightarrow> currentBalance
                     | Some lastRecord \<Rightarrow>
                         (case p_endBalance lastRecord of
                            None \<Rightarrow> currentBalance
                          | Some endBalance \<Rightarrow> endBalance))
              in if dbFails e (InsertPnl walletAddress) then (Some DbError, s)
                 else
                   (None,
                    s\<lparr>pnlRecords := pnlRecords s @
                         [\<lparr>p_userId = lookupUserId s walletAddress,
                           p_walletAddress = walletAddress,
                           p_date = today,
                           p_startBalance = startBalance,
                           p_endBalance = Some currentBalance,
                           p_realizedPnl = 0,
                           p_totalTrades = 0,
                           p_lastTradeId = None,
                           p_createdAt = now e,
                           p_updatedAt = now e\<rparr>],
                       dailyPnLCache := (dailyPnLCache s)(walletAddress \<mapsto>
                          \<lparr>c_date = today,
                           c_startBalance = startBalance,
                           c_currentBalance = currentBalance,
                           c_realizedPnl = 0,
                           c_totalTrades = 0\<rparr>)\<rparr>))
         else (None, s))"

text \<open>
  \<^verbatim>\<open>updateDailyPnL\<close>. Without a cache entry the call initialises and returns. With one, the
  entry is changed first, then every row of the wallet dated \<^verbatim>\<open>cache.date\<close> is updated,
  then the \<^verbatim>\<open>pnl\<close> event is emitted. \<^verbatim>\<open>lastTradeId\<close> is written only when truthy.
\<close>

definition updateDailyPnL ::
  "env \<Rightarrow> string \<Rightarrow> number \<Rightarrow> number \<Rightarrow> nat option \<Rightarrow> monitor \<Rightarrow> error option \<times> monitor" where
  "updateDailyPnL e walletAddress currentBalance tradePnl lastTradeId s =
     (case dailyPnLCache s walletAddress of
        None \<Rightarrow> initializeDailyPnL e walletAddress currentBalance s
      | Some cache \<Rightarrow>
          let cache1 = (if tradePnl \<noteq> 0 then cache\<lparr>c_totalTrades := c_totalTrades cache + 1\<rparr> else cache);
              cache2 = cache1\<lparr>c_currentBalance := currentBalance,
                              c_realizedPnl := c_realizedPnl cache1 + tradePnl\<rparr>;
              s1 = s\<lparr>dailyPnLCache := (dailyPnLCache s)(walletAddress \<mapsto> cache2)\<rparr>;
              setLastTradeId = (\<lambda>r. case lastTradeId of
                                   None \<Rightarrow> r
                                 | Some i \<Rightarrow> if i = 0 then r else r\<lparr>p_lastTradeId := Some i\<rparr>)
          in if dbFails e (UpdatePnl walletAddress) then (Some DbError, s1)
             else
               (None,
                emit (PnlEvent walletAddress
                       \<lparr>pe_date = c_date cache2,
                        pe_startBalance = c_startBalance cache2,
                        pe_currentBalance = c_currentBalance cache2,
                        pe_realizedPnl = c_realizedPnl cache2,
                        pe_totalTrades = c_totalTrades cache2,
                        pe_lastTradeId = lastTradeId,
                        pe_timestamp = now e\<rparr>)
                  (s1\<lparr>pnlRecords :=
                        map (\<lambda>r. if p_walletAddress r = walletAddress \<and> p_date r = c_date cache2
                                  then setLastTradeId
                                         (r\<lparr>p_endBalance := Some currentBalance,
                                            p_realizedPnl := c_realizedPnl cache2,
                                            p_totalTrades := c_totalTrades cache2,
                                            p_updatedAt := now e\<rparr>)
                                  else r)
                            (pnlRecords s1)\<rparr>)))"

section \<open>Token deltas of a transaction\<close>

text \<open>
  The first pass of \<^verbatim>\<open>processTransaction\<close> over \<^verbatim>\<open>postTokenBalances\<close>: an entry owned by the
  wallet is paired with the first pre-balance of the same \<^verbatim>\<open>accountIndex\<close>, a missing or
  null amount counts as 0, and the change, a difference of doubles, is recorded when
  \<^verbatim>\<open>Math.abs(change) > 0.000001\<close>.
\<close>

definition amountOf :: "tokenBalance option \<Rightarrow> number" where
  "amountOf b =
     (case b of
        None \<Rightarrow> 0
      | Some x \<Rightarrow> (case tb_uiAmount x of None \<Rightarrow> 0 | Some a \<Rightarrow> toDouble a))"

fun postTokenChanges :: "string \<Rightarrow> tokenBalance list \<Rightarrow> tokenBalance list \<Rightarrow> tokenChange list" where
  "postTokenChanges walletAddress preTokenBalances [] = []"
| "postTokenChanges walletAddress preTokenBalances (post # rest) =
     (if tb_owner post = Some walletAddress then
        (let pre = find (\<lambda>p. tb_accountIndex p = tb_accountIndex post) preTokenBalances;
             preAmount = amountOf pre;
             postAmount = amountOf (Some post);
             change = jsSub postAmount preAmount
         in if \<bar>change\<bar> > negligible
            then [\<lparr>tc_mint = tb_mint post, tc_preAmount = preAmount,
                   tc_postAmount = postAmount, tc_change = change\<rparr>]
            else [])
      else [])
     @ postTokenChanges walletAddress preTokenBalances rest"

text \<open>
  The second pass, over \<^verbatim>\<open>preTokenBalances\<close>, pushes onto the same array. An entry counts as
  already processed when some change recorded so far has the mint of some post-balance
  at the entry's \<^verbatim>\<open>accountIndex\<close>; otherwise, when the wallet owns it and its amount is
  positive, it is pushed as a full exit. No threshold is applied here.
\<close>

fun preTokenChanges ::
  "string \<Rightarrow> tokenBalance list \<Rightarrow> tokenChange list \<Rightarrow> tokenBalance list \<Rightarrow> tokenChange list" where
  "preTokenChanges walletAddress postTokenBalances tokenChanges [] = tokenChanges"
| "preTokenChanges walletAddress postTokenBalances tokenChanges (pre # rest) =
     (let alreadyProcessed =
            list_ex (\<lambda>tc. list_ex (\<lambda>post. tb_accountIndex post = tb_accountIndex pre
                                          \<and> tb_mint post = tc_mint tc) postTokenBalances)
                    tokenChanges
      in if \<not> alreadyProcessed \<and> tb_owner pre = Some walletAddress then
           (let preAmount = amountOf (Some pre)
            in if preAmount > 0
               then preTokenChanges walletAddress postTokenBalances
                      (tokenChanges @ [\<lparr>tc_mint = tb_mint pre, tc_preAmount = preAmount,
                                        tc_postAmount = 0, tc_change = - preAmount\<rparr>]) rest
               else preTokenChanges walletAddress postTokenBalances tokenChanges rest)
         else preTokenChanges walletAddress postTokenBalances tokenChanges rest)"

definition tokenChangesOf :: "string \<Rightarrow> txMeta \<Rightarrow> tokenChange list" where
  "tokenChangesOf walletAddress m =
     preTokenChanges walletAddress (m_postTokenBalances m)
       (postTokenChanges walletAddress (m_preTokenBalances m) (m_postTokenBalances m))
       (m_preTokenBalances m)"

text \<open>
  The token deltas as the specification words them: each post-balance of the wallet
  paired with the pre-balance of its account index, then each pre-balance of the wallet
  with no post-balance at its account index and a positive amount as a full exit, and of
  all these the entries whose magnitude exceeds \<open>10\<^sup>-\<^sup>6\<close>. The arithmetic is that of the
  64-bit floats of the specification's numeric convention, the threshold the double
  \<^verbatim>\<open>0.000001\<close>.
\<close>

definition specPaired :: "string \<Rightarrow> txMeta \<Rightarrow> tokenChange list" where
  "specPaired walletAddress m =
     map (\<lambda>post.
            let preAmount = amountOf (find (\<lambda>p. tb_accountIndex p = tb_accountIndex post)
                                           (m_preTokenBalances m));
                postAmount = amountOf (Some post)
            in \<lparr>tc_mint = tb_mint post, tc_preAmount = preAmount,
                tc_postAmount = postAmount, tc_change = jsSub postAmount preAmount\<rparr>)
         (filter (\<lambda>post. tb_owner post = Some walletAddress) (m_postTokenBalances m))"

definition fullExit :: "tokenBalance \<Rightarrow> tokenChange" where
  "fullExit pre = \<lparr>tc_mint = tb_mint pre, tc_preAmount = amountOf (Some pre),
                   tc_postAmount = 0, tc_change = - amountOf (Some pre)\<rparr>"

definition exitCandidate :: "string \<Rightarrow> tokenBalance list \<Rightarrow> tokenBalance \<Rightarrow> bool" where
  "exitCandidate walletAddress postTokenBalances pre =
     (tb_owner pre = Some walletAddress
      \<and> \<not> list_ex (\<lambda>post. tb_accountIndex post = tb_accountIndex pre) postTokenBalances
      \<and> amountOf (Some pre) > 0)"

definition specFullExits :: "string \<Rightarrow> txMeta \<Rightarrow> tokenChange list" where
  "specFullExits walletAddress m =
     map fullExit (filter (exitCandidate walletAddress (m_postTokenBalances m))
                          (m_preTokenBalances m))"

definition significant :: "tokenChange \<Rightarrow> bool" where
  "significant tc = (\<bar>tc_change tc\<bar> > negligible)"

definition specTokenDeltas :: "string \<Rightarrow> txMeta \<Rightarrow> tokenChange list" where
  "specTokenDeltas walletAddress m =
     filter significant (specPaired walletAddress m @ specFullExits walletAddress m)"

section \<open>Classification and persistence\<close>

definition addProcessed :: "string \<Rightarrow> monitor \<Rightarrow> monitor" where
  "addProcessed signature s =
     s\<lparr>processedTransactions := insert signature (processedTransactions s)\<rparr>"

text \<open>\<^verbatim>\<open>insert ... onConflictDoUpdate({target: signature, set: ...})\<close>: a row of that signature
  keeps its id and takes the new columns; otherwise a row is appended under a fresh id.\<close>

definition upsertTrade :: "trade \<Rightarrow> monitor \<Rightarrow> monitor" where
  "upsertTrade td s =
     (if list_ex (\<lambda>(i, t). t_signature t = t_signature td) (trades s)
      then s\<lparr>trades := map (\<lambda>(i, t). if t_signature t = t_signature td then (i, td) else (i, t))
                            (trades s)\<rparr>
      else s\<lparr>trades := trades s @ [(nextTradeId s, td)], nextTradeId := nextTradeId s + 1\<rparr>)"

text \<open>The two object literals written to \<^verbatim>\<open>trades\<close>: \<^verbatim>\<open>tradeData\<close> of a buy or sell and
  \<^verbatim>\<open>transferData\<close> of a deposit or withdrawal.\<close>

definition tradeData ::
  "monitor \<Rightarrow> string \<Rightarrow> string \<Rightarrow> parsedTx \<Rightarrow> int \<Rightarrow> string \<Rightarrow> number \<Rightarrow> number \<Rightarrow> bool \<Rightarrow> number
     \<Rightarrow> trade" where
  "tradeData s signature walletAddress tx blockTime mint change solChange isBuy tradePnl =
     \<lparr>t_userId = lookupUserId s walletAddress,
      t_signature = signature,
      t_walletAddress = walletAddress,
      t_tokenA = mint,
      t_tokenB = WSOL,
      t_type = (if isBuy then ''buy'' else ''sell''),
      t_amountA = \<bar>change\<bar>,
      t_amountB = \<bar>solChange\<bar>,
      t_priceUsd = 0,
      t_platform = ''unknown'',
      t_txFees = 0,
      t_timestamp = blockTime * 1000,
      t_rawData = tx,
      t_tradePnl = tradePnl\<rparr>"

definition transferData ::
  "monitor \<Rightarrow> string \<Rightarrow> string \<Rightarrow> parsedTx \<Rightarrow> int \<Rightarrow> string \<Rightarrow> number \<Rightarrow> trade" where
  "transferData s signature walletAddress tx blockTime mint change =
     (let isDeposit = change > 0
      in \<lparr>t_userId = lookupUserId s walletAddress,
          t_signature = signature,
          t_walletAddress = walletAddress,
          t_tokenA = mint,
          t_tokenB = mint,
          t_type = (if isDeposit then ''deposit'' else ''withdrawal''),
          t_amountA = \<bar>change\<bar>,
          t_amountB = \<bar>change\<bar>,
          t_priceUsd = 0,
          t_platform = ''transfer'',
          t_txFees = 0,
          t_timestamp = blockTime * 1000,
          t_rawData = tx,
          t_tradePnl = 0\<rparr>)"

definition saveTransfer :: "env \<Rightarrow> trade \<Rightarrow> monitor \<Rightarrow> error option \<times> monitor" where
  "saveTransfer e td s =
     (if dbFails e (UpsertTrade td) then (Some DbError, s) else (None, upsertTrade td s))"

text \<open>
  One round of the loop of \<^verbatim>\<open>classifyAndSaveTransaction\<close>. \<open>sol\<close> holds the wallet's
  balance before and after the transaction in SOL when both lamport entries exist; when
  one is missing the source computes with \<^verbatim>\<open>NaN\<close>, every comparison with it is false and
  the round takes the transfer branch, as it does here for \<open>None\<close>. A buy or sell is
  upserted, announced by a \<^verbatim>\<open>trade\<close> event and passed to \<^verbatim>\<open>updateDailyPnL\<close> without a
  trade id; a transfer is upserted only.
\<close>

definition classifyOne ::
  "env \<Rightarrow> string \<Rightarrow> string \<Rightarrow> (number \<times> number) option \<Rightarrow> parsedTx \<Rightarrow> int
     \<Rightarrow> tokenChange \<Rightarrow> monitor \<Rightarrow> error option \<times> monitor" where
  "classifyOne e signature walletAddress sol tx blockTime tokenChange s =
     (if tc_mint tokenChange = WSOL then (None, s)
      else
        let mint = tc_mint tokenChange;
            change = tc_change tokenChange;
            transfer = saveTransfer e (transferData s signature walletAddress tx blockTime mint change) s
        in case sol of
             None \<Rightarrow> transfer
           | Some (preSol, postSol) \<Rightarrow>
               let solChange = jsSub postSol preSol;
                   isBuy = (change > 0 \<and> solChange < 0);
                   isSell = (change < 0 \<and> solChange > 0)
               in if isBuy \<or> isSell then
                    (let tradePnl = (if isBuy then - \<bar>solChange\<bar> else \<bar>solChange\<bar>);
                         td = tradeData s signature walletAddress tx blockTime mint change
                                solChange isBuy tradePnl
                     in if dbFails e (UpsertTrade td) then (Some DbError, s)
                        else
                          updateDailyPnL e walletAddress postSol tradePnl None
                            (emit (TradeEvent walletAddress
                                     (case insertId e of None \<Rightarrow> 0 | Some i \<Rightarrow> i) td)
                                  (upsertTrade td s)))
                  else transfer)"

definition classifyAndSaveTransaction ::
  "env \<Rightarrow> string \<Rightarrow> string \<Rightarrow> (number \<times> number) option \<Rightarrow> tokenChange list \<Rightarrow> parsedTx
     \<Rightarrow> txMeta \<Rightarrow> int \<Rightarrow> monitor \<Rightarrow> error option \<times> monitor" where
  "classifyAndSaveTransaction e signature walletAddress sol tokenChanges tx m blockTime s =
     (if m_err m \<noteq> None then (None, s)
      else forEach (classifyOne e signature walletAddress sol tx blockTime) tokenChanges s)"

text \<open>\<^verbatim>\<open>updateUserBalance\<close> stamps \<^verbatim>\<open>lastActive\<close> of the wallet's user and swallows a failure
  of the update.\<close>

definition updateUserBalance :: "env \<Rightarrow> string \<Rightarrow> monitor \<Rightarrow> monitor" where
  "updateUserBalance e walletAddress s =
     (case lookupUserId s walletAddress of
        None \<Rightarrow> s
      | Some uid \<Rightarrow>
          if uid = 0 then s
          else if dbFails e (UpdateUser uid) then s
          else s\<lparr>users := map (\<lambda>u. if u_id u = uid then u\<lparr>u_lastActive := Some (now e)\<rparr> else u)
                               (users s)\<rparr>)"

section \<open>Processing one signature\<close>

definition solBalances :: "txMeta \<Rightarrow> nat \<Rightarrow> (number \<times> number) option" where
  "solBalances m i =
     (case (nthOpt (m_preBalances m) i, nthOpt (m_postBalances m) i) of
        (Some pre, Some post) \<Rightarrow>
          Some (jsDiv (toDouble (of_int pre)) 1000000000,
                jsDiv (toDouble (of_int post)) 1000000000)
      | _ \<Rightarrow> None)"

text \<open>
  The body of the \<^verbatim>\<open>try\<close> block of \<^verbatim>\<open>processTransaction\<close>, with the exception that leaves
  it, if any, and the state reached. \<open>blockTime\<close> is \<open>None\<close> for \<^verbatim>\<open>undefined\<close>.
\<close>

definition processTransactionTry ::
  "env \<Rightarrow> string \<Rightarrow> string \<Rightarrow> int option \<Rightarrow> monitor \<Rightarrow> error option \<times> monitor" where
  "processTransactionTry e signature walletAddress blockTime s =
     (if signature \<in> processedTransactions s then (None, s)
      else if dbFails e (SelectTrade signature) then (Some DbError, s)
      else if list_ex (\<lambda>(i, t). t_signature t = signature) (trades s)
        then (None, addProcessed signature s)
      else case blockTime of
        None \<Rightarrow> (None, addProcessed signature s)
      | Some bt \<Rightarrow>
          if bt = 0 then (None, addProcessed signature s)
          else
            let txDate = getPSTDate (tzOffset e) (bt * 1000);
                todayStart = getPSTStartOfDay (tzOffset e) (now e);
                todayEnd = getPSTEndOfDay (tzOffset e) (now e)
            in if txDate < todayStart \<or> txDate > todayEnd then (None, addProcessed signature s)
               else case getParsedTransaction e signature of
                 Inl err \<Rightarrow> (Some err, s)
               | Inr None \<Rightarrow> (None, addProcessed signature s)
               | Inr (Some tx) \<Rightarrow>
                   (case tx_meta tx of
                      None \<Rightarrow> (None, addProcessed signature s)
                    | Some m \<Rightarrow>
                        (case findIndex (\<lambda>account. account = walletAddress) (tx_accountKeys tx) of
                           None \<Rightarrow> (None, addProcessed signature s)
                         | Some walletAccountIndex \<Rightarrow>
                             let sol = solBalances m walletAccountIndex
                             in if (case sol of None \<Rightarrow> False
                                    | Some (preSol, postSol) \<Rightarrow>
                                        \<bar>jsSub postSol preSol\<bar> < negligible)
                                then (None, addProcessed signature s)
                                else
                                  let tokenChanges = tokenChangesOf walletAddress m
                                  in if tokenChanges = [] then (None, s)
                                     else
                                       (case classifyAndSaveTransaction e signature walletAddress
                                               sol tokenChanges tx m bt s of
                                          (Some err, s') \<Rightarrow> (Some err, s')
                                        | (None, s') \<Rightarrow>
                                            (None, addProcessed signature
                                                     (updateUserBalance e walletAddress s'))))))"

definition processTransaction :: "env \<Rightarrow> string \<Rightarrow> string \<Rightarrow> int option \<Rightarrow> monitor \<Rightarrow> monitor" where
  "processTransaction e signature walletAddress blockTime s =
     (case processTransactionTry e signature walletAddress blockTime s of
        (None, s') \<Rightarrow> s'
      | (Some err, s') \<Rightarrow> addProcessed signature s')"

section \<open>The push hub\<close>

text \<open>
  A socket is named by a number; \<open>readyState\<close> is the store of the sockets' states, read
  by \<^verbatim>\<open>sendToClient\<close>. \<open>clients\<close> is the \<^verbatim>\<open>Map<WebSocket, ClientConnection>\<close> in insertion order
  and \<open>sent\<close> is the log of the frames written, each with the socket it was written to.
  The hub reads the three tables of the store; they are passed as a \<^typ>\<open>monitor\<close>, of which
  only \<^const>\<open>users\<close>, \<^const>\<open>trades\<close> and \<^const>\<open>pnlRecords\<close> are looked at.
\<close>

datatype readyState = CONNECTING | OPEN | CLOSING | CLOSED

datatype MessageType =
    SUBSCRIBE_WALLET | UNSUBSCRIBE_WALLET | TRADE_UPDATE | BALANCE_UPDATE
  | PNL_UPDATE | USERS_LIST | USERS_UPDATE | ERROR

record tokenMetadata =
  tm_address :: string
  tm_symbol :: string
  tm_name :: string

record userData =
  ud_user :: user
  ud_lastTrade :: "((nat \<times> trade) \<times> tokenMetadata \<times> tokenMetadata) option"
  ud_dailyPnl :: "pnlRecord option"
  ud_balance :: number
  ud_pnlLastTrade :: "(nat \<times> trade) option"
  ud_pnlTokenMetadata :: "tokenMetadata option"

datatype payload =
    SubscriptionData string bool
  | TradeData string nat trade
  | BalanceData string balanceUpdate
  | PnlData string pnlUpdate
  | UsersListData "userData list"
  | UserData userData
  | ErrorData string

record webSocketMessage =
  msg_type :: MessageType
  msg_data :: payload

record clientConnection =
  cl_ws :: nat
  cl_walletAddresses :: "string set"
  cl_subscriptions :: "string set"

record hub =
  clients :: "clientConnection list"
  readyState :: "nat \<Rightarrow> readyState"
  sent :: "(nat \<times> webSocketMessage) list"

text \<open>The token-metadata service is not part of the hub: its lookup is a parameter and may
  throw. \<open>readFails\<close> says that a query of the snapshot assembly throws.\<close>

record hubEnv =
  getTokenMetadata :: "string \<Rightarrow> error + tokenMetadata"
  readFails :: bool

definition bindE :: "error + 'a \<Rightarrow> ('a \<Rightarrow> error + 'b) \<Rightarrow> error + 'b" where
  "bindE r f = (case r of Inl e \<Rightarrow> Inl e | Inr x \<Rightarrow> f x)"

fun mapE :: "('a \<Rightarrow> error + 'b) \<Rightarrow> 'a list \<Rightarrow> error + 'b list" where
  "mapE f [] = Inr []"
| "mapE f (x # xs) = bindE (f x) (\<lambda>y. bindE (mapE f xs) (\<lambda>ys. Inr (y # ys)))"

definition sendToClient :: "nat \<Rightarrow> webSocketMessage \<Rightarrow> hub \<Rightarrow> hub" where
  "sendToClient ws message h =
     (if readyState h ws = OPEN then h\<lparr>sent := sent h @ [(ws, message)]\<rparr> else h)"

definition sendError :: "nat \<Rightarrow> string \<Rightarrow> hub \<Rightarrow> hub" where
  "sendError ws errorMessage h =
     sendToClient ws \<lparr>msg_type = ERROR, msg_data = ErrorData errorMessage\<rparr> h"

definition getSubscribedClients :: "string \<Rightarrow> hub \<Rightarrow> clientConnection list" where
  "getSubscribedClients walletAddress h =
     filter (\<lambda>client. walletAddress \<in> cl_walletAddresses client) (clients h)"

definition broadcastToAll :: "webSocketMessage \<Rightarrow> hub \<Rightarrow> hub" where
  "broadcastToAll message h = fold (\<lambda>client. sendToClient (cl_ws client) message) (clients h) h"

definition broadcastToWalletSubscribers :: "string \<Rightarrow> webSocketMessage \<Rightarrow> hub \<Rightarrow> hub" where
  "broadcastToWalletSubscribers walletAddress message h =
     fold (\<lambda>client. if walletAddress \<in> cl_walletAddresses client
                     then sendToClient (cl_ws client) message else id)
          (clients h) h"

text \<open>
  The snapshot of one user, the code shared word for word by \<^verbatim>\<open>sendInitialUsersList\<close> and
  \<^verbatim>\<open>broadcastUserUpdate\<close>: the latest trade of the wallet with the metadata of both legs,
  the first row of \<^verbatim>\<open>pnl_records\<close> of the wallet ordered by date descending, the trade that
  row names, and the balance. \<^verbatim>\<open>sendInitialUsersList\<close> also binds \<^verbatim>\<open>today\<close> (local midnight)
  and never reads it.
\<close>

definition latestTrade :: "string \<Rightarrow> monitor \<Rightarrow> (nat \<times> trade) option" where
  "latestTrade walletAddress db =
     latestBy (\<lambda>(i, t). t_timestamp t) (filter (\<lambda>(i, t). t_walletAddress t = walletAddress) (trades db))"

definition tradeById :: "nat \<Rightarrow> monitor \<Rightarrow> (nat \<times> trade) option" where
  "tradeById i db = find (\<lambda>(j, t). j = i) (trades db)"

definition assembleUserData :: "hubEnv \<Rightarrow> monitor \<Rightarrow> user \<Rightarrow> error + userData" where
  "assembleUserData he db u =
     (if readFails he then Inl DbError
      else
        bindE (case latestTrade (u_walletAddress u) db of
                 None \<Rightarrow> Inr None
               | Some lastTrade \<Rightarrow>
                   bindE (getTokenMetadata he (t_tokenA (snd lastTrade))) (\<lambda>tokenAMetadata.
                   bindE (getTokenMetadata he (t_tokenB (snd lastTrade))) (\<lambda>tokenBMetadata.
                   Inr (Some (lastTrade, tokenAMetadata, tokenBMetadata)))))
          (\<lambda>lastTrade.
             let pnl = selectLastPnl (u_walletAddress u) db;
                 lastTradeId = (case pnl of None \<Rightarrow> None | Some r \<Rightarrow> p_lastTradeId r)
             in bindE (case lastTradeId of
                         None \<Rightarrow> Inr (None, None)
                       | Some i \<Rightarrow>
                           if i = 0 then Inr (None, None)
                           else (case tradeById i db of
                                   None \<Rightarrow> Inr (None, None)
                                 | Some pnlLastTrade \<Rightarrow>
                                     bindE (getTokenMetadata he
                                              (if t_type (snd pnlLastTrade) = ''buy''
                                               then t_tokenA (snd pnlLastTrade)
                                               else t_tokenB (snd pnlLastTrade)))
                                       (\<lambda>md. Inr (Some pnlLastTrade, Some md))))
                  (\<lambda>(pnlLastTrade, pnlTokenMetadata).
                     Inr \<lparr>ud_user = u,
                          ud_lastTrade = lastTrade,
                          ud_dailyPnl = pnl,
                          ud_balance = (case pnl of
                                          None \<Rightarrow> 0
                                        | Some r \<Rightarrow> (case p_endBalance r of None \<Rightarrow> 0 | Some b \<Rightarrow> b)),
                          ud_pnlLastTrade = pnlLastTrade,
                          ud_pnlTokenMetadata = pnlTokenMetadata\<rparr>)))"

text \<open>\<^verbatim>\<open>broadcastUserUpdate\<close>: nothing is sent when the wallet has no user row or when the
  assembly throws (the exception is logged).\<close>

definition broadcastUserUpdate :: "hubEnv \<Rightarrow> monitor \<Rightarrow> string \<Rightarrow> hub \<Rightarrow> hub" where
  "broadcastUserUpdate he db walletAddress h =
     (if readFails he then h
      else case filter (\<lambda>u. u_walletAddress u = walletAddress) (users db) of
        [] \<Rightarrow> h
      | u # _ \<Rightarrow>
          (case assembleUserData he db u of
             Inl err \<Rightarrow> h
           | Inr ud \<Rightarrow> broadcastToAll \<lparr>msg_type = USERS_UPDATE, msg_data = UserData ud\<rparr> h))"

text \<open>\<^verbatim>\<open>ORDER BY last_active DESC\<close>, rows without a value first as PostgreSQL orders them.\<close>

definition usersByLastActive :: "user list \<Rightarrow> user list" where
  "usersByLastActive us =
     filter (\<lambda>u. u_lastActive u = None) us
     @ rev (sort_key (\<lambda>u. case u_lastActive u of None \<Rightarrow> 0 | Some t \<Rightarrow> t)
                     (filter (\<lambda>u. u_lastActive u \<noteq> None) us))"

definition sendInitialUsersList :: "hubEnv \<Rightarrow> monitor \<Rightarrow> nat \<Rightarrow> hub \<Rightarrow> hub" where
  "sendInitialUsersList he db ws h =
     (if readFails he then sendError ws ''Failed to fetch users data'' h
      else case mapE (assembleUserData he db) (usersByLastActive (users db)) of
        Inl err \<Rightarrow> sendError ws ''Failed to fetch users data'' h
      | Inr usersWithData \<Rightarrow>
          sendToClient ws \<lparr>msg_type = USERS_LIST, msg_data = UsersListData usersWithData\<rparr> h)"

definition handleConnection :: "hubEnv \<Rightarrow> monitor \<Rightarrow> nat \<Rightarrow> hub \<Rightarrow> hub" where
  "handleConnection he db ws h =
     (let fresh = \<lparr>cl_ws = ws, cl_walletAddresses = {}, cl_subscriptions = {}\<rparr>;
          h1 = (if list_ex (\<lambda>c. cl_ws c = ws) (clients h)
                then h\<lparr>clients := map (\<lambda>c. if cl_ws c = ws then fresh else c) (clients h)\<rparr>
                else h\<lparr>clients := clients h @ [fresh]\<rparr>)
      in sendInitialUsersList he db ws h1)"

definition handleDisconnection :: "nat \<Rightarrow> hub \<Rightarrow> hub" where
  "handleDisconnection ws h = h\<lparr>clients := filter (\<lambda>c. cl_ws c \<noteq> ws) (clients h)\<rparr>"

text \<open>The two subscription handlers change the client object held by the map and confirm
  on its socket.\<close>

definition setClient :: "clientConnection \<Rightarrow> hub \<Rightarrow> hub" where
  "setClient client h =
     h\<lparr>clients := map (\<lambda>c. if cl_ws c = cl_ws client then client else c) (clients h)\<rparr>"

definition handleSubscribeWallet :: "clientConnection \<Rightarrow> string \<Rightarrow> hub \<Rightarrow> hub" where
  "handleSubscribeWallet client walletAddress h =
     sendToClient (cl_ws client)
       \<lparr>msg_type = SUBSCRIBE_WALLET, msg_data = SubscriptionData walletAddress True\<rparr>
       (setClient (client\<lparr>cl_walletAddresses := insert walletAddress (cl_walletAddresses client),
                          cl_subscriptions := insert (''wallet:'' @ walletAddress)
                                                     (cl_subscriptions client)\<rparr>) h)"

definition handleUnsubscribeWallet :: "clientConnection \<Rightarrow> string \<Rightarrow> hub \<Rightarrow> hub" where
  "handleUnsubscribeWallet client walletAddress h =
     sendToClient (cl_ws client)
       \<lparr>msg_type = UNSUBSCRIBE_WALLET, msg_data = SubscriptionData walletAddress True\<rparr>
       (setClient (client\<lparr>cl_walletAddresses := cl_walletAddresses client - {walletAddress},
                          cl_subscriptions := cl_subscriptions client
                                              - {''wallet:'' @ walletAddress}\<rparr>) h)"

text \<open>
  An incoming text frame after \<^verbatim>\<open>JSON.parse\<close>: not JSON at all, or an object with its
  \<^verbatim>\<open>type\<close> and, when it has a \<^verbatim>\<open>data\<close> object, the wallet address in it. A frame without
  \<^verbatim>\<open>data\<close> makes \<^verbatim>\<open>message.data.walletAddress\<close> throw inside the \<^verbatim>\<open>try\<close> block.
\<close>

datatype inbound = NotJson | Parsed string "string option"

definition handleMessage :: "nat \<Rightarrow> inbound \<Rightarrow> hub \<Rightarrow> hub" where
  "handleMessage ws messageData h =
     (case messageData of
        NotJson \<Rightarrow> sendError ws ''Invalid message format'' h
      | Parsed type dat \<Rightarrow>
          (case find (\<lambda>c. cl_ws c = ws) (clients h) of
             None \<Rightarrow> h
           | Some client \<Rightarrow>
               if type = ''SUBSCRIBE_WALLET'' then
                 (case dat of
                    None \<Rightarrow> sendError ws ''Invalid message format'' h
                  | Some walletAddress \<Rightarrow> handleSubscribeWallet client walletAddress h)
               else if type = ''UNSUBSCRIBE_WALLET'' then
                 (case dat of
                    None \<Rightarrow> sendError ws ''Invalid message format'' h
                  | Some walletAddress \<Rightarrow> handleUnsubscribeWallet client walletAddress h)
               else sendError ws ''Unknown message type'' h))"

text \<open>The three listeners on the monitor's events.\<close>

definition handleTradeUpdate :: "hubEnv \<Rightarrow> monitor \<Rightarrow> string \<Rightarrow> nat \<Rightarrow> trade \<Rightarrow> hub \<Rightarrow> hub" where
  "handleTradeUpdate he db walletAddress tradeId td h =
     (let subscribedClients = getSubscribedClients walletAddress h;
          h1 = fold (\<lambda>client. sendToClient (cl_ws client)
                                 \<lparr>msg_type = TRADE_UPDATE,
                                  msg_data = TradeData walletAddress tradeId td\<rparr>)
                    subscribedClients h
      in broadcastUserUpdate he db walletAddress h1)"

definition handleBalanceUpdate :: "hubEnv \<Rightarrow> monitor \<Rightarrow> string \<Rightarrow> balanceUpdate \<Rightarrow> hub \<Rightarrow> hub" where
  "handleBalanceUpdate he db walletAddress balanceData h =
     broadcastUserUpdate he db walletAddress
       (broadcastToWalletSubscribers walletAddress
          \<lparr>msg_type = BALANCE_UPDATE, msg_data = BalanceData walletAddress balanceData\<rparr> h)"

definition handlePnLUpdate :: "hubEnv \<Rightarrow> monitor \<Rightarrow> string \<Rightarrow> pnlUpdate \<Rightarrow> hub \<Rightarrow> hub" where
  "handlePnLUpdate he db walletAddress pnlData h =
     broadcastUserUpdate he db walletAddress
       (broadcastToWalletSubscribers walletAddress
          \<lparr>msg_type = PNL_UPDATE, msg_data = PnlData walletAddress pnlData\<rparr> h)"

text \<open>The frames a socket has been sent, oldest first.\<close>

definition received :: "hub \<Rightarrow> nat \<Rightarrow> webSocketMessage list" where
  "received h ws = map snd (filter (\<lambda>(w, message). w = ws) (sent h))"

section \<open>Notions used in the statements\<close>

text \<open>The test the second pass of the token deltas makes on a pre-balance, against the
  changes recorded so far.\<close>

definition alreadyProcessed :: "tokenBalance list \<Rightarrow> tokenChange list \<Rightarrow> tokenBalance \<Rightarrow> bool" where
  "alreadyProcessed postTokenBalances tokenChanges pre =
     list_ex (\<lambda>tc. list_ex (\<lambda>post. tb_accountIndex post = tb_accountIndex pre
                                   \<and> tb_mint post = tc_mint tc) postTokenBalances)
             tokenChanges"

text \<open>Every token account of the wallet that holds a positive amount before and is listed
  after as well is listed after as the wallet's, with a change above the threshold.\<close>

definition pairedAccountsChange :: "string \<Rightarrow> txMeta \<Rightarrow> bool" where
  "pairedAccountsChange walletAddress m =
     list_all (\<lambda>pre.
        tb_owner pre = Some walletAddress \<and> amountOf (Some pre) > 0
        \<and> list_ex (\<lambda>post. tb_accountIndex post = tb_accountIndex pre) (m_postTokenBalances m)
        \<longrightarrow> list_ex (\<lambda>post. tb_accountIndex post = tb_accountIndex pre
                              \<and> tb_owner post = Some walletAddress
                              \<and> \<bar>jsSub (amountOf (Some post))
                                    (amountOf (find (\<lambda>p. tb_accountIndex p = tb_accountIndex post)
                                                    (m_preTokenBalances m)))\<bar> > negligible)
                     (m_postTokenBalances m))
       (m_preTokenBalances m)"

text \<open>The signature column of \<^verbatim>\<open>trades\<close>, whether a signature has a row, and two states
  with the same rows and the same events.\<close>

definition signatures :: "monitor \<Rightarrow> string list" where
  "signatures s = map (\<lambda>(i, t). t_signature t) (trades s)"

definition hasRow :: "string \<Rightarrow> monitor \<Rightarrow> bool" where
  "hasRow signature s = list_ex (\<lambda>(i, t). t_signature t = signature) (trades s)"

definition sameStore :: "monitor \<Rightarrow> monitor \<Rightarrow> bool" where
  "sameStore s s' =
     (trades s' = trades s \<and> emitted s' = emitted s \<and> pnlRecords s' = pnlRecords s)"

text \<open>What a step of the classification may do to the store, as seen from one signature:
  nothing, or leave a row of that signature; rows and the uniqueness of signatures are
  kept, and the set of processed signatures is not touched.\<close>

definition effect :: "string \<Rightarrow> monitor \<Rightarrow> monitor \<Rightarrow> bool" where
  "effect sg s s' =
     ((sameStore s s' \<or> hasRow sg s')
      \<and> (\<forall>sg'. hasRow sg' s \<longrightarrow> hasRow sg' s')
      \<and> (distinct (signatures s) \<longrightarrow> distinct (signatures s'))
      \<and> processedTransactions s' = processedTransactions s)"

definition outcome :: "string \<Rightarrow> monitor \<Rightarrow> monitor \<Rightarrow> bool" where
  "outcome sg s s' =
     ((sameStore s s' \<or> (hasRow sg s' \<and> sg \<in> processedTransactions s'))
      \<and> (distinct (signatures s) \<longrightarrow> distinct (signatures s')))"

text \<open>The row of a deposit of 100 units of one mint.\<close>

definition depositRow :: "monitor \<Rightarrow> string \<Rightarrow> string \<Rightarrow> parsedTx \<Rightarrow> int \<Rightarrow> string \<Rightarrow> trade" where
  "depositRow s signature walletAddress tx blockTime mint =
     \<lparr>t_userId = lookupUserId s walletAddress, t_signature = signature,
      t_walletAddress = walletAddress, t_tokenA = mint, t_tokenB = mint, t_type = ''deposit'',
      t_amountA = 100, t_amountB = 100, t_priceUsd = 0, t_platform = ''transfer'', t_txFees = 0,
      t_timestamp = blockTime * 1000, t_rawData = tx, t_tradePnl = 0\<rparr>"

section \<open>Worked inputs\<close>

text \<open>
  One wallet \<open>W1\<close> of user 1 on a host set to UTC, at 2024-01-01T12:00:00Z. On that host
  \<^const>\<open>getPSTStartOfDay\<close> gives 1704067200000 for that instant. Transactions carry the
  block time 1704100000 s, inside the day the monitor takes for today.
\<close>

definition exWallet :: string where
  "exWallet = ''W1''"

definition exOtherWallet :: string where
  "exOtherWallet = ''W2''"

definition exMint :: string where
  "exMint = ''M1''"

definition exSignature :: string where
  "exSignature = ''sig1''"

definition exBlockTime :: int where
  "exBlockTime = 1704100000"

definition noFailure :: "dbOp \<Rightarrow> bool" where
  "noFailure op = False"

definition upsertFails :: "dbOp \<Rightarrow> bool" where
  "upsertFails op = (case op of UpsertTrade td \<Rightarrow> True | _ \<Rightarrow> False)"

definition exEnv :: "parsedTx option \<Rightarrow> (dbOp \<Rightarrow> bool) \<Rightarrow> env" where
  "exEnv tx fails =
     \<lparr>now = 1704110400000, tzOffset = 0, getParsedTransaction = (\<lambda>signature. Inr tx),
      dbFails = fails, insertId = None\<rparr>"

definition exUser :: user where
  "exUser = \<lparr>u_id = 1, u_displayName = ''trader'', u_walletAddress = exWallet,
             u_isLive = True, u_lastActive = None\<rparr>"

definition exMonitor :: "pnlRecord list \<Rightarrow> monitor" where
  "exMonitor rows =
     \<lparr>activeWallets = [exWallet \<mapsto> \<lparr>w_userId = Some 1, w_lastSignature = None\<rparr>],
      dailyPnLCache = Map.empty, processedTransactions = {}, users = [exUser],
      trades = [], nextTradeId = 1, pnlRecords = rows, emitted = []\<rparr>"

text \<open>Today's row and yesterday's row of the wallet, the row seeded from yesterday's at a
  current balance of 7, and the cache entry that matches today's row.\<close>

definition exTodayRow :: pnlRecord where
  "exTodayRow =
     \<lparr>p_userId = Some 1, p_walletAddress = exWallet, p_date = 1704067200000,
      p_startBalance = 1, p_endBalance = Some 1, p_realizedPnl = 0, p_totalTrades = 0,
      p_lastTradeId = None, p_createdAt = 1704067200000, p_updatedAt = 1704067200000\<rparr>"

definition exPriorRow :: pnlRecord where
  "exPriorRow =
     \<lparr>p_userId = Some 1, p_walletAddress = exWallet, p_date = 1703980800000,
      p_startBalance = 4, p_endBalance = Some 5, p_realizedPnl = 1, p_totalTrades = 2,
      p_lastTradeId = None, p_createdAt = 1703980800000, p_updatedAt = 1703980800000\<rparr>"

definition exSeededRow :: pnlRecord where
  "exSeededRow =
     \<lparr>p_userId = Some 1, p_walletAddress = exWallet, p_date = 1704067200000,
      p_startBalance = 5, p_endBalance = Some 7, p_realizedPnl = 0, p_totalTrades = 0,
      p_lastTradeId = None, p_createdAt = 1704110400000, p_updatedAt = 1704110400000\<rparr>"

definition exUpdatedRow :: pnlRecord where
  "exUpdatedRow =
     \<lparr>p_userId = Some 1, p_walletAddress = exWallet, p_date = 1704067200000,
      p_startBalance = 1, p_endBalance = Some (9 / 10), p_realizedPnl = - (1 / 10),
      p_totalTrades = 1, p_lastTradeId = None, p_createdAt = 1704067200000,
      p_updatedAt = 1704110400000\<rparr>"

definition exCache :: pnlCache where
  "exCache = \<lparr>c_date = 1704067200000, c_startBalance = 1, c_currentBalance = 1,
              c_realizedPnl = 0, c_totalTrades = 0\<rparr>"

definition exCachedMonitor :: monitor where
  "exCachedMonitor = (exMonitor [exTodayRow])\<lparr>dailyPnLCache := [exWallet \<mapsto> exCache]\<rparr>"

text \<open>A token account of the wallet holding a given amount, and a transaction of the
  wallet with given lamport balances and token balances before and after.\<close>

definition exAccount :: "number \<Rightarrow> tokenBalance" where
  "exAccount a =
     \<lparr>tb_accountIndex = 3, tb_mint = exMint, tb_owner = Some exWallet, tb_uiAmount = Some a\<rparr>"

definition exMeta :: "int \<Rightarrow> int \<Rightarrow> tokenBalance list \<Rightarrow> tokenBalance list \<Rightarrow> txMeta" where
  "exMeta preLamports postLamports pres posts =
     \<lparr>m_err = None, m_preBalances = [preLamports], m_postBalances = [postLamports],
      m_preTokenBalances = pres, m_postTokenBalances = posts\<rparr>"

definition exTx :: "int \<Rightarrow> int \<Rightarrow> tokenBalance list \<Rightarrow> tokenBalance list \<Rightarrow> parsedTx" where
  "exTx preLamports postLamports pres posts =
     \<lparr>tx_meta = Some (exMeta preLamports postLamports pres posts), tx_accountKeys = [exWallet]\<rparr>"

definition exAccountAt :: "nat \<Rightarrow> number \<Rightarrow> tokenBalance" where
  "exAccountAt i a =
     \<lparr>tb_accountIndex = i, tb_mint = exMint, tb_owner = Some exWallet, tb_uiAmount = Some a\<rparr>"

text \<open>Account 3 leaves with a dust amount, account 4 falls from 10 to 4, account 5 appears
  with \<^verbatim>\<open>0.000001\<close> and account 6 with \<^verbatim>\<open>0.000002\<close>, account 7 goes from 2 to \<^verbatim>\<open>2.000001\<close>.\<close>

definition exTokenMeta :: txMeta where
  "exTokenMeta =
     exMeta 0 0 [exAccountAt 3 (1 / 2097152), exAccountAt 4 10, exAccountAt 7 2]
                [exAccountAt 4 4, exAccountAt 5 (1 / 1000000), exAccountAt 6 (2 / 1000000),
                 exAccountAt 7 (2000001 / 1000000)]"

definition exBuyTx :: parsedTx where
  "exBuyTx = exTx 1000000000 900000000 [] [exAccount 500]"

definition exZeroSolTx :: parsedTx where
  "exZeroSolTx = exTx 1000000000 1000000000 [] [exAccount 100]"

definition exSolInTx :: parsedTx where
  "exSolInTx = exTx 1000000000 1100000000 [] [exAccount 100]"

text \<open>The same transfer with a rise of 1000 lamports, which is \<open>10\<^sup>-\<^sup>6\<close> SOL on paper.\<close>

definition exThousandLamportsTx :: parsedTx where
  "exThousandLamportsTx = exTx 1000000000 1000001000 [] [exAccount 100]"

text \<open>The same rise of 1000 lamports on an empty wallet.\<close>

definition exFirstLamportsTx :: parsedTx where
  "exFirstLamportsTx = exTx 0 1000 [] [exAccount 100]"

definition exAfterBuy :: monitor where
  "exAfterBuy =
     processTransaction (exEnv (Some exBuyTx) noFailure) exSignature exWallet (Some exBlockTime)
       (exMonitor [])"

text \<open>A fresh process on the same store: the three in-memory containers are empty.\<close>

definition restarted :: "monitor \<Rightarrow> monitor" where
  "restarted s = s\<lparr>activeWallets := Map.empty, dailyPnLCache := Map.empty,
                    processedTransactions := {}\<rparr>"

text \<open>Two open sockets: client 1 subscribed to \<open>W1\<close> only, client 2 to \<open>W1\<close> and \<open>W2\<close>.\<close>

definition exHubEnv :: hubEnv where
  "exHubEnv = \<lparr>getTokenMetadata = (\<lambda>a. Inr \<lparr>tm_address = a, tm_symbol = a, tm_name = a\<rparr>),
               readFails = False\<rparr>"

definition exClient :: "nat \<Rightarrow> string set \<Rightarrow> clientConnection" where
  "exClient ws wallets =
     \<lparr>cl_ws = ws, cl_walletAddresses = wallets,
      cl_subscriptions = (\<lambda>w. ''wallet:'' @ w) ` wallets\<rparr>"

definition exHub :: hub where
  "exHub = \<lparr>clients = [exClient 1 {exWallet}, exClient 2 {exWallet, exOtherWallet}],
            readyState = (\<lambda>ws. OPEN), sent = []\<rparr>"

definition exOtherUser :: user where
  "exOtherUser = \<lparr>u_id = 2, u_displayName = ''other'', u_walletAddress = exOtherWallet,
                  u_isLive = True, u_lastActive = None\<rparr>"

definition exStore :: monitor where
  "exStore = (exMonitor [exPriorRow])\<lparr>users := [exUser, exOtherUser]\<rparr>"

definition exSnapshot :: userData where
  "exSnapshot = \<lparr>ud_user = exUser, ud_lastTrade = None, ud_dailyPnl = Some exPriorRow,
                 ud_balance = 5, ud_pnlLastTrade = None, ud_pnlTokenMetadata = None\<rparr>"

definition exOtherSnapshot :: userData where
  "exOtherSnapshot = \<lparr>ud_user = exOtherUser, ud_lastTrade = None, ud_dailyPnl = None,
                      ud_balance = 0, ud_pnlLastTrade = None, ud_pnlTokenMetadata = None\<rparr>"

definition exTrade :: trade where
  "exTrade = depositRow exStore exSignature exOtherWallet exZeroSolTx exBlockTime exMint"

lemmas clock_defs =
  getPSTStartOfDay_def getPSTEndOfDay_def getPSTDate_def setHours_def PST_OFFSET_def msPerDay_def

lemmas example_defs =
  exWallet_def exOtherWallet_def exMint_def exSignature_def exBlockTime_def noFailure_def
  upsertFails_def exEnv_def exUser_def exMonitor_def exTodayRow_def exPriorRow_def
  exSeededRow_def exUpdatedRow_def exCache_def exCachedMonitor_def exAccount_def exMeta_def
  exTx_def exBuyTx_def exZeroSolTx_def exSolInTx_def exAccountAt_def exTokenMeta_def
  exThousandLamportsTx_def exFirstLamportsTx_def

lemmas pnl_defs =
  updateDailyPnL_def initializeDailyPnL_def selectPnl_def selectLastPnl_def lookupUserId_def
  emit_def

lemmas hub_example_defs =
  exHubEnv_def exClient_def exHub_def exOtherUser_def exStore_def exSnapshot_def
  exOtherSnapshot_def exUser_def exMonitor_def exPriorRow_def exWallet_def exOtherWallet_def

lemmas run_defs =
  processTransaction_def processTransactionTry_def classifyAndSaveTransaction_def
  classifyOne_def saveTransfer_def transferData_def tradeData_def upsertTrade_def
  updateUserBalance_def addProcessed_def tokenChangesOf_def solBalances_def amountOf_def
  WSOL_def

section \<open>Doubles\<close>

text \<open>Rounding moves a number by at most half a unit in its last place, and commutes with
  negation.\<close>

lemma pow2_positive: "0 < pow2 e"
  by (simp add: pow2_def)

lemma roundHalfEven_near: "\<bar>of_int (roundHalfEven x) - x\<bar> \<le> 1 / 2"
proof -
  have "of_int \<lfloor>x\<rfloor> \<le> x" "x < of_int \<lfloor>x\<rfloor> + 1"
    by linarith+
  then show ?thesis
    by (auto simp add: roundHalfEven_def Let_def abs_le_iff)
qed

lemma toDouble_minus: "toDouble (- x) = - toDouble x"
  by (simp add: toDouble_def Let_def sgn_minus)

lemma toDouble_near:
  "\<bar>toDouble x - x\<bar> \<le> pow2 (max (binade \<bar>x\<bar> - 52) (- 1074)) / 2"
proof (cases "x = 0")
  case True
  then show ?thesis
    using pow2_positive [of "max (binade \<bar>x\<bar> - 52) (- 1074)"] by (simp add: toDouble_def)
next
  case False
  define u where "u = pow2 (max (binade \<bar>x\<bar> - 52) (- 1074))"
  have u: "0 < u"
    by (simp add: u_def pow2_positive)
  define n where "n = roundHalfEven (\<bar>x\<bar> / u)"
  have "\<bar>of_int n - \<bar>x\<bar> / u\<bar> \<le> 1 / 2"
    unfolding n_def by (rule roundHalfEven_near)
  then have "\<bar>of_int n - \<bar>x\<bar> / u\<bar> * u \<le> 1 / 2 * u"
    using u by (simp add: mult_right_mono)
  moreover have "\<bar>of_int n - \<bar>x\<bar> / u\<bar> * u = \<bar>of_int n * u - \<bar>x\<bar>\<bar>"
  proof -
    have "\<bar>of_int n - \<bar>x\<bar> / u\<bar> * u = \<bar>(of_int n - \<bar>x\<bar> / u) * u\<bar>"
      using u by (simp add: abs_mult)
    also have "(of_int n - \<bar>x\<bar> / u) * u = of_int n * u - \<bar>x\<bar>"
      using u by (simp add: left_diff_distrib)
    finally show ?thesis .
  qed
  ultimately have a: "\<bar>of_int n * u - \<bar>x\<bar>\<bar> \<le> u / 2"
    by simp
  have "toDouble x = sgn x * (of_int n * u)"
    using False by (simp add: toDouble_def Let_def n_def u_def)
  moreover have "x = sgn x * \<bar>x\<bar>"
    by (simp add: sgn_mult_abs)
  ultimately have "toDouble x - x = sgn x * (of_int n * u - \<bar>x\<bar>)"
    by (simp add: right_diff_distrib)
  then have "\<bar>toDouble x - x\<bar> = \<bar>of_int n * u - \<bar>x\<bar>\<bar>"
    using False by (simp add: abs_mult abs_sgn_eq)
  then show ?thesis
    using a by (simp add: u_def)
qed

text \<open>The rounding at values a JavaScript host prints: \<^verbatim>\<open>0.1\<close> is
  \<open>3602879701896397 / 2\<^sup>5\<^sup>5\<close>, the literal \<^verbatim>\<open>0.000001\<close> lies just below \<open>10\<^sup>-\<^sup>6\<close>, and the
  integers and powers of two met below are kept.\<close>

lemma toDouble_tenth: "toDouble (1 / 10) = 3602879701896397 / 36028797018963968"
  by code_simp

lemma negligible_value: "negligible = 4722366482869645 / 4722366482869645213696"
  by code_simp


lemma toDouble_kept:
  "toDouble 0 = 0" "toDouble 1 = 1" "toDouble 2 = 2" "toDouble 4 = 4" "toDouble 10 = 10"
  "toDouble 100 = 100" "toDouble 500 = 500" "toDouble 1000 = 1000"
  "toDouble 1000000000 = 1000000000" "toDouble 900000000 = 900000000"
  "toDouble 1100000000 = 1100000000" "toDouble 1000001000 = 1000001000"
  "toDouble (1 / 2097152) = 1 / 2097152" "toDouble (- 3) = - 3"
  by code_simp+

lemma jsSub_same: "jsSub a a = 0"
  by (simp add: jsSub_def toDouble_def)

lemma jsSub_zero: "jsSub a 0 = toDouble a"
  by (simp add: jsSub_def)

lemma jsDiv_zero: "jsDiv 0 b = 0"
  by (simp add: jsDiv_def toDouble_def)

text \<open>
  The balances in SOL of the worked inputs: \<^verbatim>\<open>900000000 / 1e9\<close> is the double \<^verbatim>\<open>0.9\<close>,
  \<^verbatim>\<open>1100000000 / 1e9\<close> the double \<^verbatim>\<open>1.1\<close>, \<^verbatim>\<open>1000001000 / 1e9\<close> the double \<^verbatim>\<open>1.000001\<close> and
  \<^verbatim>\<open>1000 / 1e9\<close> the double \<^verbatim>\<open>0.000001\<close>; none of them equals the quotient it rounds.
\<close>

lemma sol_values:
  "jsDiv 1000000000 1000000000 = 1"
  "jsDiv 900000000 1000000000 = 8106479329266893 / 9007199254740992"
  "jsDiv 1100000000 1000000000 = 2476979795053773 / 2251799813685248"
  "jsDiv 1000001000 1000000000 = 4503604130970123 / 4503599627370496"
  "jsDiv 1000 1000000000 = 4722366482869645 / 4722366482869645213696"
  by code_simp+

lemma sol_changes:
  "jsSub (8106479329266893 / 9007199254740992) 1 = - (900719925474099 / 9007199254740992)"
  "jsSub (2476979795053773 / 2251799813685248) 1 = 225179981368525 / 2251799813685248"
  "jsSub (4503604130970123 / 4503599627370496) 1 = 4503599627 / 4503599627370496"
  "toDouble (4722366482869645 / 4722366482869645213696)
     = 4722366482869645 / 4722366482869645213696"
  by code_simp+

text \<open>The token amounts of the worked inputs and their changes.\<close>

lemma token_values:
  "toDouble (1 / 1000000) = 4722366482869645 / 4722366482869645213696"
  "toDouble (1 / 500000) = 4722366482869645 / 2361183241434822606848"
  "toDouble (2000001 / 1000000) = 2251800939585155 / 1125899906842624"
  "toDouble (4722366482869645 / 2361183241434822606848)
     = 4722366482869645 / 2361183241434822606848"
  "jsSub 4 10 = - 6"
  "jsSub (2251800939585155 / 1125899906842624) 2 = 1125899907 / 1125899906842624"
  by code_simp+

text \<open>
  A wallet at 1 SOL gains 1000 lamports: the change the monitor computes,
  \<^verbatim>\<open>1000001000 / 1e9 - 1000000000 / 1e9\<close>, is the double \<^verbatim>\<open>9.999999999177334e-07\<close>, below
  the literal \<^verbatim>\<open>0.000001\<close>. A token balance goes from 2 to \<^verbatim>\<open>2.000001\<close>: the change computed
  is \<^verbatim>\<open>1.000000000139778e-06\<close>, above the literal.
\<close>

lemma thousand_lamports_change:
  "jsSub (jsDiv (toDouble 1000001000) 1000000000) (jsDiv (toDouble 1000000000) 1000000000)
     = 4503599627 / 4503599627370496"
  "9999999999177333 / 10 ^ 22 < (4503599627 / 4503599627370496 :: rat)"
  "(4503599627 / 4503599627370496 :: rat) < 9999999999177335 / 10 ^ 22"
  "(4503599627 / 4503599627370496 :: rat) < negligible"
  by (simp_all add: toDouble_kept sol_values sol_changes negligible_value)

lemma two_to_2000001_change:
  "jsSub (toDouble (2000001 / 1000000)) (toDouble 2) = 1125899907 / 1125899906842624"
  "1000000000139777 / 10 ^ 21 < (1125899907 / 1125899906842624 :: rat)"
  "(1125899907 / 1125899906842624 :: rat) < 1000000000139779 / 10 ^ 21"
  "negligible < (1125899907 / 1125899906842624 :: rat)"
  by (simp_all add: toDouble_kept token_values negligible_value)

lemmas double_values =
  toDouble_kept jsSub_same jsSub_zero jsDiv_zero sol_values sol_changes token_values
  negligible_value

section \<open>The clock\<close>




lemma getPSTStartOfDay_shift:
  "getPSTStartOfDay tz t = utc8DayStart t + (tz - 480) * 60000"
  by (simp add: getPSTStartOfDay_def getPSTDate_def setHours_def utc8DayStart_def
      PST_OFFSET_def Let_def algebra_simps)

lemma getPSTEndOfDay_shift:
  "getPSTEndOfDay tz t = utc8DayEnd t + (tz - 480) * 60000"
  by (simp add: getPSTEndOfDay_def getPSTDate_def setHours_def utc8DayEnd_def utc8DayStart_def
      PST_OFFSET_def msPerDay_def Let_def algebra_simps)

text \<open>The test \<^verbatim>\<open>txDate < todayStart || txDate > todayEnd\<close> of \<^verbatim>\<open>processTransaction\<close> shifts
  both sides alike, so it does compare the block time with the UTC-8 day of the current
  instant, on every host. The host shows in the boundary itself, which is the key under
  which the day's PnL row is stored.\<close>

lemma today_window_is_host_independent:
  "(getPSTDate tz (bt * 1000) < getPSTStartOfDay tz t \<or> getPSTDate tz (bt * 1000) > getPSTEndOfDay tz t)
   = (bt * 1000 < utc8DayStart t \<or> bt * 1000 > utc8DayEnd t)"
  by (auto simp add: getPSTStartOfDay_shift getPSTEndOfDay_shift getPSTDate_def PST_OFFSET_def
      Let_def)

text \<open>
  C9. The day boundary the monitor computes is not the boundary of the UTC-8 day as an
  instant, and it moves with the host's zone. At the instant 2024-01-01T12:00:00Z a host
  on UTC computes the start 2024-01-01T00:00:00Z, a host on UTC+1 computes
  2023-12-31T23:00:00Z, and the UTC-8 day containing the instant starts at
  2024-01-01T08:00:00Z. The same holds for the end of the day.
\<close>

theorem day_boundary_depends_on_host:
  "getPSTStartOfDay 0 1704110400000 = 1704067200000
   \<and> getPSTStartOfDay (- 60) 1704110400000 = 1704063600000
   \<and> utc8DayStart 1704110400000 = 1704096000000
   \<and> getPSTEndOfDay 0 1704110400000 = 1704153599999
   \<and> getPSTEndOfDay (- 60) 1704110400000 = 1704149999999
   \<and> utc8DayEnd 1704110400000 = 1704182399999"
  by (simp add: getPSTStartOfDay_def getPSTEndOfDay_def getPSTDate_def setHours_def
      utc8DayStart_def utc8DayEnd_def PST_OFFSET_def msPerDay_def Let_def)

section \<open>Daily PnL: applying a trade and seeding a day\<close>

lemma latestBy_greatest:
  "latestBy k xs = Some x \<Longrightarrow> x \<in> set xs \<and> (\<forall>y\<in>set xs. k y \<le> k x)"
proof (induction xs arbitrary: x)
  case Nil
  then show ?case by simp
next
  case (Cons a xs)
  show ?case
  proof (cases "latestBy k xs")
    case None
    then have "xs = []" by (cases xs) (auto split: option.splits if_splits)
    then show ?thesis using Cons.prems by simp
  next
    case (Some y)
    then show ?thesis
      using Cons.IH [OF Some] Cons.prems by (auto split: if_splits)
  qed
qed

text \<open>The row \<^verbatim>\<open>initializeDailyPnL\<close> seeds from is a row of the wallet, and no row of the
  wallet bears a later date.\<close>

lemma selectLastPnl_latest:
  assumes "selectLastPnl w s = Some previous"
  shows "previous \<in> set (pnlRecords s) \<and> p_walletAddress previous = w
         \<and> (\<forall>r\<in>set (pnlRecords s). p_walletAddress r = w \<longrightarrow> p_date r \<le> p_date previous)"
  using latestBy_greatest [OF assms [unfolded selectLastPnl_def]] by auto

lemma updateDailyPnL_without_cache:
  assumes "dailyPnLCache s w = None" and "\<not> dbFails e (SelectPnl w)"
      and "selectPnl w (getPSTStartOfDay (tzOffset e) (now e)) s \<noteq> []"
  shows "updateDailyPnL e w currentBalance tradePnl lastTradeId s = (None, s)"
  using assms by (simp add: updateDailyPnL_def initializeDailyPnL_def Let_def)

text \<open>
  C1. Today's row of the wallet is in the store and the cache has no entry for the
  wallet, as after a restart. Applying the buy of the first scenario (balance 0.9, trade
  PnL -0.1) returns the state as it was: the row keeps 0 trades, end balance 1 and PnL 0,
  no \<^verbatim>\<open>pnl\<close> event is emitted, and the cache is still empty, so the next trade fares the
  same. With the cache entry present the same call writes the row and emits the event.
\<close>

theorem apply_trade_dropped_without_cache:
  "selectPnl exWallet (getPSTStartOfDay 0 1704110400000) (exMonitor [exTodayRow]) = [exTodayRow]
   \<and> updateDailyPnL (exEnv None noFailure) exWallet (9 / 10) (- (1 / 10)) None
        (exMonitor [exTodayRow])
      = (None, exMonitor [exTodayRow])
   \<and> pnlRecords (snd (updateDailyPnL (exEnv None noFailure) exWallet (9 / 10) (- (1 / 10)) None
        exCachedMonitor))
      = [exUpdatedRow]
   \<and> emitted (snd (updateDailyPnL (exEnv None noFailure) exWallet (9 / 10) (- (1 / 10)) None
        exCachedMonitor))
      = [PnlEvent exWallet
           \<lparr>pe_date = 1704067200000, pe_startBalance = 1, pe_currentBalance = 9 / 10,
            pe_realizedPnl = - (1 / 10), pe_totalTrades = 1, pe_lastTradeId = None,
            pe_timestamp = 1704110400000\<rparr>]"
  by (simp add: pnl_defs example_defs clock_defs Let_def)

text \<open>
  C2, as the claim has it, fails: yesterday's row ends at 5 and the first touch of today
  comes with a current balance of 7. The row inserted starts at 5 and ends at 7.
\<close>

theorem seeded_row_counterexample:
  "pnlRecords (snd (initializeDailyPnL (exEnv None noFailure) exWallet 7 (exMonitor [exPriorRow])))
     = [exPriorRow, exSeededRow]
   \<and> p_startBalance exSeededRow = 5
   \<and> p_endBalance exSeededRow = Some 7
   \<and> p_endBalance exSeededRow \<noteq> Some (p_startBalance exSeededRow)"
  by (simp add: pnl_defs example_defs clock_defs Let_def)

text \<open>
  C2, amended. On the first touch of a day with no row for that day, when the wallet's
  latest row has an end balance, one row is appended: it starts at that end balance, ends
  at the current balance passed in, and has PnL 0 and 0 trades. The cache entry of the
  wallet is set to the same values.
\<close>

theorem initializeDailyPnL_seeds:
  assumes reads: "\<not> dbFails e (SelectPnl w)" "\<not> dbFails e (SelectLastPnl w)"
      and writes: "\<not> dbFails e (InsertPnl w)"
      and first: "selectPnl w (getPSTStartOfDay (tzOffset e) (now e)) s = []"
      and prior: "selectLastPnl w s = Some previous" "p_endBalance previous = Some b"
  shows "\<exists>r s'. initializeDailyPnL e w currentBalance s = (None, s')
           \<and> pnlRecords s' = pnlRecords s @ [r]
           \<and> p_walletAddress r = w
           \<and> p_date r = getPSTStartOfDay (tzOffset e) (now e)
           \<and> p_startBalance r = b
           \<and> p_endBalance r = Some currentBalance
           \<and> p_realizedPnl r = 0
           \<and> p_totalTrades r = 0
           \<and> dailyPnLCache s' w
               = Some \<lparr>c_date = p_date r, c_startBalance = b, c_currentBalance = currentBalance,
                       c_realizedPnl = 0, c_totalTrades = 0\<rparr>"
  using assms by (simp add: initializeDailyPnL_def Let_def)

theorem initializeDailyPnL_seeds_witness:
  "\<not> dbFails (exEnv None noFailure) (SelectPnl exWallet)
   \<and> \<not> dbFails (exEnv None noFailure) (SelectLastPnl exWallet)
   \<and> \<not> dbFails (exEnv None noFailure) (InsertPnl exWallet)
   \<and> selectPnl exWallet (getPSTStartOfDay 0 1704110400000) (exMonitor [exPriorRow]) = []
   \<and> selectLastPnl exWallet (exMonitor [exPriorRow]) = Some exPriorRow
   \<and> p_endBalance exPriorRow = Some 5
   \<and> (\<exists>r s'. initializeDailyPnL (exEnv None noFailure) exWallet 7 (exMonitor [exPriorRow]) = (None, s')
           \<and> pnlRecords s' = [exPriorRow, r]
           \<and> p_startBalance r = 5 \<and> p_endBalance r = Some 7
           \<and> p_realizedPnl r = 0 \<and> p_totalTrades r = 0)"
proof -
  have h: "\<not> dbFails (exEnv None noFailure) (SelectPnl exWallet)"
          "\<not> dbFails (exEnv None noFailure) (SelectLastPnl exWallet)"
          "\<not> dbFails (exEnv None noFailure) (InsertPnl exWallet)"
    by (simp_all add: exEnv_def noFailure_def)
  have first: "selectPnl exWallet (getPSTStartOfDay (tzOffset (exEnv None noFailure))
                 (now (exEnv None noFailure))) (exMonitor [exPriorRow]) = []"
    by (simp add: selectPnl_def example_defs clock_defs Let_def)
  have prior: "selectLastPnl exWallet (exMonitor [exPriorRow]) = Some exPriorRow"
              "p_endBalance exPriorRow = Some 5"
    by (simp_all add: selectLastPnl_def exMonitor_def exPriorRow_def)
  from initializeDailyPnL_seeds [OF h first prior, of 7]
  obtain r s' where
    "initializeDailyPnL (exEnv None noFailure) exWallet 7 (exMonitor [exPriorRow]) = (None, s')"
    "pnlRecords s' = pnlRecords (exMonitor [exPriorRow]) @ [r]"
    "p_startBalance r = 5" "p_endBalance r = Some 7" "p_realizedPnl r = 0" "p_totalTrades r = 0"
    by blast
  moreover have "pnlRecords (exMonitor [exPriorRow]) = [exPriorRow]"
    by (simp add: exMonitor_def)
  ultimately have "\<exists>r s'. initializeDailyPnL (exEnv None noFailure) exWallet 7 (exMonitor [exPriorRow]) = (None, s')
           \<and> pnlRecords s' = [exPriorRow, r]
           \<and> p_startBalance r = 5 \<and> p_endBalance r = Some 7
           \<and> p_realizedPnl r = 0 \<and> p_totalTrades r = 0"
    by auto
  then show ?thesis using h first prior by (simp add: exEnv_def)
qed

section \<open>Token deltas\<close>

lemma postTokenChanges_filter:
  "postTokenChanges w pres posts =
     filter significant
       (map (\<lambda>post.
               let preAmount = amountOf (find (\<lambda>p. tb_accountIndex p = tb_accountIndex post) pres);
                   postAmount = amountOf (Some post)
               in \<lparr>tc_mint = tb_mint post, tc_preAmount = preAmount,
                   tc_postAmount = postAmount, tc_change = jsSub postAmount preAmount\<rparr>)
            (filter (\<lambda>post. tb_owner post = Some w) posts))"
  by (induction posts) (simp_all add: Let_def significant_def)

lemma first_pass_paired:
  "postTokenChanges w (m_preTokenBalances m) (m_postTokenBalances m)
     = filter significant (specPaired w m)"
  by (simp add: postTokenChanges_filter specPaired_def)

lemma preTokenChanges_Cons:
  "preTokenChanges w posts tcs (pre # rest) =
     (if \<not> alreadyProcessed posts tcs pre \<and> tb_owner pre = Some w \<and> amountOf (Some pre) > 0
      then preTokenChanges w posts (tcs @ [fullExit pre]) rest
      else preTokenChanges w posts tcs rest)"
  by (simp add: Let_def fullExit_def alreadyProcessed_def)

lemma exitCandidate_not_processed:
  "exitCandidate w posts pre \<Longrightarrow> \<not> alreadyProcessed posts tcs pre"
  by (auto simp add: exitCandidate_def alreadyProcessed_def list_ex_iff)

lemma alreadyProcessed_mono:
  "alreadyProcessed posts tcs pre \<Longrightarrow> alreadyProcessed posts (tcs @ extra) pre"
  by (auto simp add: alreadyProcessed_def list_ex_iff)

text \<open>Whatever the second pass does, it appends to the changes of the first pass, and
  every full exit is among what it appends.\<close>

lemma preTokenChanges_appends:
  "\<exists>E. preTokenChanges w posts tcs pres = tcs @ E
       \<and> set (map fullExit (filter (exitCandidate w posts) pres)) \<subseteq> set E"
proof (induction pres arbitrary: tcs)
  case Nil
  show ?case by simp
next
  case (Cons pre pres)
  show ?case
  proof (cases "\<not> alreadyProcessed posts tcs pre \<and> tb_owner pre = Some w \<and> amountOf (Some pre) > 0")
    case True
    obtain E where E: "preTokenChanges w posts (tcs @ [fullExit pre]) pres = (tcs @ [fullExit pre]) @ E"
      and sub: "set (map fullExit (filter (exitCandidate w posts) pres)) \<subseteq> set E"
      using Cons.IH [of "tcs @ [fullExit pre]"] by blast
    have "preTokenChanges w posts tcs (pre # pres) = tcs @ (fullExit pre # E)"
      using True E by (simp only: preTokenChanges_Cons) simp
    moreover have "set (map fullExit (filter (exitCandidate w posts) (pre # pres)))
                   \<subseteq> set (fullExit pre # E)"
      using sub by auto
    ultimately show ?thesis by blast
  next
    case False
    obtain E where E: "preTokenChanges w posts tcs pres = tcs @ E"
      and sub: "set (map fullExit (filter (exitCandidate w posts) pres)) \<subseteq> set E"
      using Cons.IH [of tcs] by blast
    have nc: "\<not> exitCandidate w posts pre"
      using False exitCandidate_not_processed [of w posts pre tcs]
      by (auto simp add: exitCandidate_def)
    have "preTokenChanges w posts tcs (pre # pres) = tcs @ E"
      using False E by (simp only: preTokenChanges_Cons) simp
    moreover have "set (map fullExit (filter (exitCandidate w posts) (pre # pres))) \<subseteq> set E"
      using sub nc by simp
    ultimately show ?thesis by blast
  qed
qed

text \<open>When every pre-balance of the wallet that has a post-balance at its index counts as
  already processed, the second pass appends the full exits and nothing else.\<close>

lemma preTokenChanges_exact:
  assumes "\<forall>pre\<in>set pres. tb_owner pre = Some w \<and> amountOf (Some pre) > 0
              \<and> list_ex (\<lambda>post. tb_accountIndex post = tb_accountIndex pre) posts
            \<longrightarrow> alreadyProcessed posts tcs pre"
  shows "preTokenChanges w posts tcs pres
           = tcs @ map fullExit (filter (exitCandidate w posts) pres)"
  using assms
proof (induction pres arbitrary: tcs)
  case Nil
  show ?case by simp
next
  case (Cons pre pres)
  have rest: "\<forall>p\<in>set pres. tb_owner p = Some w \<and> amountOf (Some p) > 0
              \<and> list_ex (\<lambda>post. tb_accountIndex post = tb_accountIndex p) posts
            \<longrightarrow> alreadyProcessed posts (tcs @ extra) p" for extra
    using Cons.prems alreadyProcessed_mono by auto
  show ?case
  proof (cases "\<not> alreadyProcessed posts tcs pre \<and> tb_owner pre = Some w \<and> amountOf (Some pre) > 0")
    case True
    then have "\<not> list_ex (\<lambda>post. tb_accountIndex post = tb_accountIndex pre) posts"
      using Cons.prems by auto
    then have c: "exitCandidate w posts pre"
      using True by (simp add: exitCandidate_def)
    show ?thesis
      using True c Cons.IH [OF rest, of "[fullExit pre]"]
      by (simp only: preTokenChanges_Cons) simp
  next
    case False
    have nc: "\<not> exitCandidate w posts pre"
      using False exitCandidate_not_processed [of w posts pre tcs]
      by (auto simp add: exitCandidate_def)
    show ?thesis
      using False nc Cons.IH [OF rest, of "[]"]
      by (simp only: preTokenChanges_Cons) simp
  qed
qed

lemma first_pass_marks:
  assumes "post \<in> set posts" and "tb_owner post = Some w"
      and "\<bar>jsSub (amountOf (Some post))
                 (amountOf (find (\<lambda>p. tb_accountIndex p = tb_accountIndex post) pres))\<bar>
             > negligible"
      and "tb_accountIndex post = tb_accountIndex pre"
  shows "alreadyProcessed posts (postTokenChanges w pres posts) pre"
proof -
  have "\<exists>tc\<in>set (postTokenChanges w pres posts). tc_mint tc = tb_mint post"
    using assms(1-3)
    by (auto simp add: postTokenChanges_filter significant_def Let_def intro!: bexI [of _ post])
  then obtain tc where "tc \<in> set (postTokenChanges w pres posts)" "tc_mint tc = tb_mint post"
    by blast
  then show ?thesis
    using assms(1,4) unfolding alreadyProcessed_def list_ex_iff
    by (intro bexI [of _ tc] bexI [of _ post]) simp_all
qed

text \<open>An account listed before and after with the same amount is recorded as a full exit:
  the first pass records no change for it, so the second pass does not count it as
  already processed.\<close>

lemma unchanged_account_recorded_as_exit:
  "tokenChangesOf exWallet (exMeta 0 0 [exAccount 100] [exAccount 100])
     = [\<lparr>tc_mint = exMint, tc_preAmount = 100, tc_postAmount = 0, tc_change = - 100\<rparr>]"
  by (simp add: tokenChangesOf_def example_defs amountOf_def double_values Let_def)

text \<open>
  C3, as the claim has it, fails: the wallet's only token account holds \<open>2\<^sup>-\<^sup>2\<^sup>1\<close>, a double,
  before the transaction and is gone after it. The code keeps the full exit, of magnitude
  below the double \<^verbatim>\<open>0.000001\<close> and below \<open>10\<^sup>-\<^sup>6\<close>; the deltas of the claim are empty.
\<close>

theorem dust_exit_counterexample:
  "tokenChangesOf exWallet (exMeta 0 0 [exAccount (1 / 2097152)] [])
     = [\<lparr>tc_mint = exMint, tc_preAmount = 1 / 2097152, tc_postAmount = 0,
         tc_change = - (1 / 2097152)\<rparr>]
   \<and> \<bar>- (1 / 2097152) :: number\<bar> < negligible
   \<and> \<bar>- (1 / 2097152) :: number\<bar> < 1 / 1000000
   \<and> specTokenDeltas exWallet (exMeta 0 0 [exAccount (1 / 2097152)] []) = []"
  by (simp add: tokenChangesOf_def specTokenDeltas_def specPaired_def specFullExits_def
      fullExit_def exitCandidate_def significant_def example_defs amountOf_def double_values
      Let_def)

text \<open>
  C3, amended. The token deltas start with the paired entries of the wallet's
  post-balances, each with the change \<^verbatim>\<open>post - pre\<close> as the doubles give it, of which those
  are kept whose magnitude exceeds the double \<^verbatim>\<open>0.000001\<close> (a computed change equal to that
  double is dropped), and go on with entries that contain every full exit, whatever its
  magnitude. When every token account of the wallet that is listed on both sides has a
  computed change above that double, the full exits are all that follows.

  On the worked input the balance of account 4 falls from 10 to 4 and is kept; account 5
  appears with \<^verbatim>\<open>0.000001\<close>, a change equal to the threshold, and is dropped; account 6
  appears with \<^verbatim>\<open>0.000002\<close> and is kept; account 7 goes from 2 to \<^verbatim>\<open>2.000001\<close>, a change of
  \<open>10\<^sup>-\<^sup>6\<close> on paper that the doubles compute as \<^verbatim>\<open>1.000000000139778e-06\<close>, and is kept;
  account 3 leaves with \<open>2\<^sup>-\<^sup>2\<^sup>1\<close> and is kept as a full exit.
\<close>

theorem tokenChanges_paired_then_exits:
  "\<exists>E. tokenChangesOf w m = filter significant (specPaired w m) @ E
       \<and> set (specFullExits w m) \<subseteq> set E
       \<and> (pairedAccountsChange w m \<longrightarrow> E = specFullExits w m)"
proof (cases "pairedAccountsChange w m")
  case True
  have "\<forall>pre\<in>set (m_preTokenBalances m). tb_owner pre = Some w \<and> amountOf (Some pre) > 0
              \<and> list_ex (\<lambda>post. tb_accountIndex post = tb_accountIndex pre) (m_postTokenBalances m)
            \<longrightarrow> alreadyProcessed (m_postTokenBalances m)
                  (postTokenChanges w (m_preTokenBalances m) (m_postTokenBalances m)) pre"
    using True first_pass_marks [of _ "m_postTokenBalances m" w "m_preTokenBalances m"]
    by (auto simp add: pairedAccountsChange_def list_all_iff list_ex_iff)
  then have "tokenChangesOf w m = filter significant (specPaired w m) @ specFullExits w m"
    unfolding tokenChangesOf_def
    by (simp add: preTokenChanges_exact first_pass_paired specFullExits_def)
  then show ?thesis by auto
next
  case False
  then show ?thesis
    using preTokenChanges_appends [of w "m_postTokenBalances m"
        "postTokenChanges w (m_preTokenBalances m) (m_postTokenBalances m)" "m_preTokenBalances m"]
    by (auto simp add: tokenChangesOf_def first_pass_paired specFullExits_def)
qed

theorem tokenChanges_paired_then_exits_witness:
  "pairedAccountsChange exWallet exTokenMeta
   \<and> tokenChangesOf exWallet exTokenMeta
       = [\<lparr>tc_mint = exMint, tc_preAmount = 10, tc_postAmount = 4, tc_change = - 6\<rparr>,
          \<lparr>tc_mint = exMint, tc_preAmount = 0,
            tc_postAmount = 4722366482869645 / 2361183241434822606848,
            tc_change = 4722366482869645 / 2361183241434822606848\<rparr>,
          \<lparr>tc_mint = exMint, tc_preAmount = 2,
            tc_postAmount = 2251800939585155 / 1125899906842624,
            tc_change = 1125899907 / 1125899906842624\<rparr>,
          \<lparr>tc_mint = exMint, tc_preAmount = 1 / 2097152, tc_postAmount = 0,
            tc_change = - (1 / 2097152)\<rparr>]"
proof -
  have p: "pairedAccountsChange exWallet exTokenMeta"
    by (simp add: pairedAccountsChange_def example_defs amountOf_def double_values)
  obtain E where "tokenChangesOf exWallet exTokenMeta
                    = filter significant (specPaired exWallet exTokenMeta) @ E"
    and "pairedAccountsChange exWallet exTokenMeta \<longrightarrow> E = specFullExits exWallet exTokenMeta"
    using tokenChanges_paired_then_exits [of exWallet exTokenMeta] by blast
  then have "tokenChangesOf exWallet exTokenMeta
               = filter significant (specPaired exWallet exTokenMeta)
                 @ specFullExits exWallet exTokenMeta"
    using p by simp
  then show ?thesis
    using p
    by (simp add: specPaired_def specFullExits_def fullExit_def exitCandidate_def
        significant_def example_defs amountOf_def double_values Let_def)
qed

section \<open>Processing a signature: what a pass can do to the store\<close>

lemma list_ex_signature:
  "list_ex (\<lambda>(i, t). t_signature t = g) xs = (g \<in> set (map (\<lambda>(i, t). t_signature t) xs))"
  by (induction xs) auto

lemma hasRow_signatures: "hasRow sg s = (sg \<in> set (signatures s))"
  by (simp add: hasRow_def signatures_def list_ex_signature)

lemma effect_refl: "effect sg s s"
  by (simp add: effect_def sameStore_def)

lemma effect_trans: "effect sg s s1 \<Longrightarrow> effect sg s1 s2 \<Longrightarrow> effect sg s s2"
  by (auto simp add: effect_def sameStore_def hasRow_def)

lemma processed_signature_skipped:
  "signature \<in> processedTransactions s \<Longrightarrow> processTransaction e signature w bt s = s"
  by (simp add: processTransaction_def processTransactionTry_def)

lemma stored_signature_skipped:
  "signature \<notin> processedTransactions s \<Longrightarrow> hasRow signature s
   \<Longrightarrow> processTransaction e signature w bt s = addProcessed signature s"
  by (simp add: processTransaction_def processTransactionTry_def hasRow_def)

lemma addProcessed_fields [simp]:
  "trades (addProcessed sg s) = trades s"
  "emitted (addProcessed sg s) = emitted s"
  "pnlRecords (addProcessed sg s) = pnlRecords s"
  "dailyPnLCache (addProcessed sg s) = dailyPnLCache s"
  "processedTransactions (addProcessed sg s) = insert sg (processedTransactions s)"
  by (simp_all add: addProcessed_def)

lemma updateUserBalance_fields [simp]:
  "trades (updateUserBalance e w s) = trades s"
  "emitted (updateUserBalance e w s) = emitted s"
  "pnlRecords (updateUserBalance e w s) = pnlRecords s"
  "dailyPnLCache (updateUserBalance e w s) = dailyPnLCache s"
  "processedTransactions (updateUserBalance e w s) = processedTransactions s"
  by (simp_all add: updateUserBalance_def split: option.splits)

lemma initializeDailyPnL_trades:
  "initializeDailyPnL e w b s = (r, s')
   \<Longrightarrow> trades s' = trades s \<and> processedTransactions s' = processedTransactions s"
  by (auto simp add: initializeDailyPnL_def Let_def split: if_splits)

lemma updateDailyPnL_trades:
  "updateDailyPnL e w b p t s = (r, s')
   \<Longrightarrow> trades s' = trades s \<and> processedTransactions s' = processedTransactions s"
  by (auto simp add: updateDailyPnL_def Let_def emit_def dest: initializeDailyPnL_trades
      split: option.splits if_splits)

lemma signatures_upsertTrade:
  "signatures (upsertTrade td s) =
     (if t_signature td \<in> set (signatures s) then signatures s
      else signatures s @ [t_signature td])"
proof -
  have "map (\<lambda>(i, t). t_signature t)
          (map (\<lambda>(i, t). if t_signature t = t_signature td then (i, td) else (i, t)) xs)
        = map (\<lambda>(i, t). t_signature t) xs" for xs :: "(nat \<times> trade) list"
    by (induction xs) auto
  then show ?thesis
    by (simp add: signatures_def upsertTrade_def list_ex_signature)
qed

lemma upsertTrade_processed [simp]:
  "processedTransactions (upsertTrade td s) = processedTransactions s"
  by (simp add: upsertTrade_def)

lemma upsertTrade_effect: "effect (t_signature td) s (upsertTrade td s)"
  by (simp add: effect_def hasRow_signatures signatures_upsertTrade)

lemma effect_cong:
  "effect sg s s1 \<Longrightarrow> trades s2 = trades s1
   \<Longrightarrow> processedTransactions s2 = processedTransactions s1
   \<Longrightarrow> hasRow sg s1 \<Longrightarrow> effect sg s s2"
  by (simp add: effect_def hasRow_def signatures_def)

lemma tradeData_signature [simp]:
  "t_signature (tradeData s sg w tx bt mint ch sc b p) = sg"
  by (simp add: tradeData_def)

lemma transferData_signature [simp]:
  "t_signature (transferData s sg w tx bt mint ch) = sg"
  by (simp add: transferData_def Let_def)

lemma saveTransfer_effect:
  "saveTransfer e td s = (r, s') \<Longrightarrow> t_signature td = sg \<Longrightarrow> effect sg s s'"
  using upsertTrade_effect [of td s]
  by (auto simp add: saveTransfer_def effect_refl split: if_splits)

lemma saveTrade_effect:
  assumes "updateDailyPnL e w b p None (emit ev (upsertTrade td s)) = (r, s')"
      and "t_signature td = sg"
  shows "effect sg s s'"
proof -
  from updateDailyPnL_trades [OF assms(1)]
  have "trades s' = trades (upsertTrade td s)"
       "processedTransactions s' = processedTransactions (upsertTrade td s)"
    by (simp_all add: emit_def)
  moreover have "hasRow sg (upsertTrade td s)"
    using assms(2) by (auto simp add: hasRow_signatures signatures_upsertTrade)
  ultimately show ?thesis
    using upsertTrade_effect [of td s] assms(2) effect_cong by blast
qed

lemma classifyOne_effect:
  assumes "classifyOne e sg w sol tx bt tc s = (r, s')"
  shows "effect sg s s'"
  using assms
  by (auto simp add: classifyOne_def Let_def effect_refl
      split: if_splits option.splits prod.splits
      intro: saveTransfer_effect saveTrade_effect)

lemma forEach_classifyOne_effect:
  "forEach (classifyOne e sg w sol tx bt) tcs s = (r, s') \<Longrightarrow> effect sg s s'"
proof (induction tcs arbitrary: s)
  case Nil
  then show ?case by (simp add: effect_refl)
next
  case (Cons tc tcs)
  obtain r1 s1 where one: "classifyOne e sg w sol tx bt tc s = (r1, s1)"
    by (cases "classifyOne e sg w sol tx bt tc s")
  note eff = classifyOne_effect [OF one]
  show ?case
  proof (cases r1)
    case (Some err)
    then show ?thesis using Cons.prems one eff by simp
  next
    case None
    then have "forEach (classifyOne e sg w sol tx bt) tcs s1 = (r, s')"
      using Cons.prems one by simp
    from Cons.IH [OF this] eff show ?thesis by (rule effect_trans [rotated])
  qed
qed

lemma classifyAndSaveTransaction_effect:
  "classifyAndSaveTransaction e sg w sol tcs tx m bt s = (r, s') \<Longrightarrow> effect sg s s'"
  by (auto simp add: classifyAndSaveTransaction_def effect_refl forEach_classifyOne_effect
      split: if_splits)

text \<open>A pass over a signature leaves rows, events and PnL rows as they were, or it ends
  with a row of that signature in \<^verbatim>\<open>trades\<close> and the signature in the processed set.\<close>

lemma processTransaction_outcome: "outcome sg s (processTransaction e sg w bt s)"
proof -
  have base: "outcome sg s s" "outcome sg s (addProcessed sg s)"
    by (simp_all add: outcome_def sameStore_def signatures_def)
  have fin: "effect sg s s1 \<Longrightarrow> outcome sg s (addProcessed sg s1)"
            "effect sg s s1 \<Longrightarrow> outcome sg s (addProcessed sg (updateUserBalance e w s1))" for s1
    by (auto simp add: outcome_def effect_def sameStore_def hasRow_def signatures_def)
  show ?thesis
    unfolding processTransaction_def processTransactionTry_def Let_def
    by (auto simp add: base split: option.splits sum.splits prod.splits if_splits
        intro!: fin dest: classifyAndSaveTransaction_effect)
qed

lemma filter_distinct_key:
  "distinct (map f xs)
   \<Longrightarrow> length (filter (\<lambda>x. f x = a) xs) = (if a \<in> set (map f xs) then 1 else 0)"
  by (induction xs) (auto simp add: filter_empty_conv)

section \<open>Transfers, failed writes and repeated signatures\<close>




text \<open>
  C5, as the claim has it, fails: the buy of the first scenario is classified and its
  upsert is rejected. The exception ends the pass in the \<^verbatim>\<open>catch\<close> block, which adds the
  signature to the processed set; no row has been written.
\<close>

theorem failed_upsert_counterexample:
  "processTransactionTry (exEnv (Some exBuyTx) upsertFails) exSignature exWallet
     (Some exBlockTime) (exMonitor [])
     = (Some DbError, exMonitor [])
   \<and> exSignature \<in> processedTransactions
        (processTransaction (exEnv (Some exBuyTx) upsertFails) exSignature exWallet
           (Some exBlockTime) (exMonitor []))
   \<and> trades (processTransaction (exEnv (Some exBuyTx) upsertFails) exSignature exWallet
               (Some exBlockTime) (exMonitor [])) = []"
  by (simp add: run_defs example_defs clock_defs double_values Let_def)

text \<open>
  C5, amended. When an exception leaves the \<^verbatim>\<open>try\<close> block of a pass, a rejected trade
  upsert included, the signature is added to the processed set, and every later pass of
  this process over the same signature returns the state unchanged: the signature is
  not retried.
\<close>

theorem exception_caches_signature:
  assumes "processTransactionTry e sg w bt s = (Some err, s')"
  shows "sg \<in> processedTransactions (processTransaction e sg w bt s)
         \<and> processTransaction e' sg w' bt' (processTransaction e sg w bt s)
             = processTransaction e sg w bt s"
proof -
  have "sg \<in> processedTransactions (processTransaction e sg w bt s)"
    using assms by (simp add: processTransaction_def)
  then show ?thesis
    using processed_signature_skipped by simp
qed

theorem exception_caches_signature_witness:
  "processTransactionTry (exEnv (Some exBuyTx) upsertFails) exSignature exWallet
     (Some exBlockTime) (exMonitor [])
     = (Some DbError, exMonitor [])
   \<and> exSignature \<in> processedTransactions
        (processTransaction (exEnv (Some exBuyTx) upsertFails) exSignature exWallet
           (Some exBlockTime) (exMonitor []))
   \<and> processTransaction (exEnv (Some exBuyTx) noFailure) exSignature exWallet (Some exBlockTime)
        (processTransaction (exEnv (Some exBuyTx) upsertFails) exSignature exWallet
           (Some exBlockTime) (exMonitor []))
     = processTransaction (exEnv (Some exBuyTx) upsertFails) exSignature exWallet
         (Some exBlockTime) (exMonitor [])"
proof -
  have h: "processTransactionTry (exEnv (Some exBuyTx) upsertFails) exSignature exWallet
             (Some exBlockTime) (exMonitor [])
           = (Some DbError, exMonitor [])"
    by (simp add: run_defs example_defs clock_defs double_values Let_def)
  show ?thesis
    using h exception_caches_signature [OF h] by simp
qed

text \<open>
  C6. A first pass over a signature takes the state from \<open>s0\<close>, whose \<^verbatim>\<open>trades\<close> table has
  unique signatures, to \<open>s1\<close>. The signature is then fed again, either to the same process,
  which holds it in the processed set, or after a restart, to any state \<open>s1'\<close> that has the
  \<^verbatim>\<open>trades\<close> table of \<open>s1\<close>, when the first pass wrote a row, emitted an event or changed a
  PnL row. The second pass writes no trade row, emits no event and leaves the PnL rows as
  they are; the table holds at most one row of the signature, and exactly one when the
  first pass had such an effect.
\<close>

theorem second_pass_changes_nothing:
  assumes first: "s1 = processTransaction e1 sg w1 bt1 s0"
      and unique: "distinct (map (\<lambda>(i, t). t_signature t) (trades s0))"
      and carried: "(s1' = s1 \<and> sg \<in> processedTransactions s1)
                    \<or> (trades s1' = trades s1
                        \<and> (trades s1 \<noteq> trades s0 \<or> emitted s1 \<noteq> emitted s0
                            \<or> pnlRecords s1 \<noteq> pnlRecords s0))"
      and second: "s2 = processTransaction e2 sg w2 bt2 s1'"
  shows "trades s2 = trades s1' \<and> emitted s2 = emitted s1' \<and> pnlRecords s2 = pnlRecords s1'
         \<and> length (filter (\<lambda>(i, t). t_signature t = sg) (trades s2)) \<le> 1
         \<and> (trades s1 \<noteq> trades s0 \<or> emitted s1 \<noteq> emitted s0 \<or> pnlRecords s1 \<noteq> pnlRecords s0
              \<longrightarrow> length (filter (\<lambda>(i, t). t_signature t = sg) (trades s2)) = 1)"
proof -
  have out: "outcome sg s0 s1"
    using first processTransaction_outcome by simp
  then have d1: "distinct (signatures s1)"
    using unique by (simp add: outcome_def signatures_def)
  have row: "hasRow sg s1"
    if "trades s1 \<noteq> trades s0 \<or> emitted s1 \<noteq> emitted s0 \<or> pnlRecords s1 \<noteq> pnlRecords s0"
    using out that by (auto simp add: outcome_def sameStore_def)
  have known: "sg \<in> processedTransactions s1' \<or> hasRow sg s1'"
    using carried row by (auto simp add: hasRow_def)
  have same: "trades s2 = trades s1' \<and> emitted s2 = emitted s1' \<and> pnlRecords s2 = pnlRecords s1'"
  proof (cases "sg \<in> processedTransactions s1'")
    case True
    then show ?thesis using second processed_signature_skipped by simp
  next
    case False
    then show ?thesis using second known stored_signature_skipped by simp
  qed
  have t: "trades s2 = trades s1"
    using same carried by auto
  have cnt: "length (filter (\<lambda>(i, t). t_signature t = sg) (trades s1))
             = (if hasRow sg s1 then 1 else 0)"
    using filter_distinct_key [of "\<lambda>(i, t). t_signature t" "trades s1" sg] d1
    by (simp add: signatures_def hasRow_signatures case_prod_unfold)
  show ?thesis
    using same t cnt row by auto
qed

theorem second_pass_changes_nothing_witness:
  "distinct (map (\<lambda>(i, t). t_signature t) (trades (exMonitor [])))
   \<and> exSignature \<in> processedTransactions exAfterBuy
   \<and> trades exAfterBuy \<noteq> trades (exMonitor [])
   \<and> trades (restarted exAfterBuy) = trades exAfterBuy
   \<and> exSignature \<notin> processedTransactions (restarted exAfterBuy)
   \<and> trades (processTransaction (exEnv (Some exBuyTx) noFailure) exSignature exWallet
               (Some exBlockTime) exAfterBuy) = trades exAfterBuy
   \<and> emitted (processTransaction (exEnv (Some exBuyTx) noFailure) exSignature exWallet
               (Some exBlockTime) exAfterBuy) = emitted exAfterBuy
   \<and> pnlRecords (processTransaction (exEnv (Some exBuyTx) noFailure) exSignature exWallet
               (Some exBlockTime) exAfterBuy) = pnlRecords exAfterBuy
   \<and> trades (processTransaction (exEnv (Some exBuyTx) noFailure) exSignature exWallet
               (Some exBlockTime) (restarted exAfterBuy)) = trades exAfterBuy
   \<and> emitted (processTransaction (exEnv (Some exBuyTx) noFailure) exSignature exWallet
               (Some exBlockTime) (restarted exAfterBuy)) = emitted exAfterBuy
   \<and> pnlRecords (processTransaction (exEnv (Some exBuyTx) noFailure) exSignature exWallet
               (Some exBlockTime) (restarted exAfterBuy)) = pnlRecords exAfterBuy
   \<and> length (filter (\<lambda>(i, t). t_signature t = exSignature)
               (trades (processTransaction (exEnv (Some exBuyTx) noFailure) exSignature exWallet
                  (Some exBlockTime) (restarted exAfterBuy)))) = 1"
proof -
  let ?e = "exEnv (Some exBuyTx) noFailure"
  have unique: "distinct (map (\<lambda>(i, t). t_signature t) (trades (exMonitor [])))"
    by (simp add: exMonitor_def)
  have cached: "exSignature \<in> processedTransactions exAfterBuy"
    and wrote: "trades exAfterBuy \<noteq> trades (exMonitor [])"
    by (simp_all add: exAfterBuy_def run_defs pnl_defs example_defs clock_defs double_values
        Let_def)
  have store: "trades (restarted exAfterBuy) = trades exAfterBuy"
              "emitted (restarted exAfterBuy) = emitted exAfterBuy"
              "pnlRecords (restarted exAfterBuy) = pnlRecords exAfterBuy"
              "exSignature \<notin> processedTransactions (restarted exAfterBuy)"
    by (simp_all add: restarted_def)
  have inProcess: "(exAfterBuy = exAfterBuy \<and> exSignature \<in> processedTransactions exAfterBuy)
        \<or> (trades exAfterBuy = trades exAfterBuy
            \<and> (trades exAfterBuy \<noteq> trades (exMonitor [])
                \<or> emitted exAfterBuy \<noteq> emitted (exMonitor [])
                \<or> pnlRecords exAfterBuy \<noteq> pnlRecords (exMonitor [])))"
    using cached by simp
  have afterRestart: "(restarted exAfterBuy = exAfterBuy \<and> exSignature \<in> processedTransactions exAfterBuy)
        \<or> (trades (restarted exAfterBuy) = trades exAfterBuy
            \<and> (trades exAfterBuy \<noteq> trades (exMonitor [])
                \<or> emitted exAfterBuy \<noteq> emitted (exMonitor [])
                \<or> pnlRecords exAfterBuy \<noteq> pnlRecords (exMonitor [])))"
    using wrote store(1) by simp
  note a = second_pass_changes_nothing [OF exAfterBuy_def unique inProcess refl,
      of ?e exWallet "Some exBlockTime"]
  note b = second_pass_changes_nothing [OF exAfterBuy_def unique afterRestart refl,
      of ?e exWallet "Some exBlockTime"]
  have a1: "trades (processTransaction ?e exSignature exWallet (Some exBlockTime) exAfterBuy)
              = trades exAfterBuy"
    and a2: "emitted (processTransaction ?e exSignature exWallet (Some exBlockTime) exAfterBuy)
              = emitted exAfterBuy"
    and a3: "pnlRecords (processTransaction ?e exSignature exWallet (Some exBlockTime) exAfterBuy)
              = pnlRecords exAfterBuy"
    using a by blast+
  have b1: "trades (processTransaction ?e exSignature exWallet (Some exBlockTime)
                      (restarted exAfterBuy)) = trades exAfterBuy"
    and b2: "emitted (processTransaction ?e exSignature exWallet (Some exBlockTime)
                      (restarted exAfterBuy)) = emitted exAfterBuy"
    and b3: "pnlRecords (processTransaction ?e exSignature exWallet (Some exBlockTime)
                      (restarted exAfterBuy)) = pnlRecords exAfterBuy"
    using b store(1-3) by metis+
  have b4: "length (filter (\<lambda>(i, t). t_signature t = exSignature)
               (trades (processTransaction ?e exSignature exWallet (Some exBlockTime)
                  (restarted exAfterBuy)))) = 1"
    using b wrote by blast
  show ?thesis
    by (intro conjI) (fact unique cached wrote store(1) store(4) a1 a2 a3 b1 b2 b3 b4)+
qed

section \<open>The push hub: snapshots, fan-out and unsubscription\<close>

text \<open>
  C7. The store holds yesterday's PnL row of \<open>W1\<close> (end balance 5) and no row for today.
  The snapshot of \<open>W1\<close> sent in \<^verbatim>\<open>USERS_UPDATE\<close> and in \<^verbatim>\<open>USERS_LIST\<close> carries that row as
  \<^verbatim>\<open>dailyPnl\<close> and 5 as balance: the query takes the wallet's latest row and never looks at
  the day. The current instant is not an input of either function.
\<close>

theorem snapshot_carries_prior_day_row:
  "sent (broadcastUserUpdate exHubEnv exStore exWallet exHub)
     = [(1, \<lparr>msg_type = USERS_UPDATE, msg_data = UserData exSnapshot\<rparr>),
        (2, \<lparr>msg_type = USERS_UPDATE, msg_data = UserData exSnapshot\<rparr>)]
   \<and> sent (sendInitialUsersList exHubEnv exStore 1 exHub)
     = [(1, \<lparr>msg_type = USERS_LIST, msg_data = UsersListData [exSnapshot, exOtherSnapshot]\<rparr>)]
   \<and> ud_dailyPnl exSnapshot = Some exPriorRow
   \<and> ud_balance exSnapshot = 5
   \<and> p_date exPriorRow = getPSTStartOfDay 0 1704024000000
   \<and> selectPnl exWallet (getPSTStartOfDay 0 1704110400000) exStore = []"
  by (simp add: broadcastUserUpdate_def sendInitialUsersList_def assembleUserData_def
      broadcastToAll_def sendToClient_def latestTrade_def selectLastPnl_def selectPnl_def
      bindE_def usersByLastActive_def hub_example_defs clock_defs Let_def)

text \<open>In every snapshot that can be assembled, \<^verbatim>\<open>dailyPnl\<close> is the wallet's latest row and
  the balance is that row's end balance.\<close>

lemma snapshot_dailyPnl_is_latest_row:
  assumes "assembleUserData he db u = Inr ud"
  shows "ud_dailyPnl ud = selectLastPnl (u_walletAddress u) db
         \<and> ud_balance ud = (case selectLastPnl (u_walletAddress u) db of
                              None \<Rightarrow> 0
                            | Some r \<Rightarrow> (case p_endBalance r of None \<Rightarrow> 0 | Some b \<Rightarrow> b))"
  using assms
  by (auto simp add: assembleUserData_def bindE_def Let_def
      split: if_splits sum.splits option.splits prod.splits)

text \<open>\<^verbatim>\<open>broadcastUserUpdate\<close> sends nothing for a wallet without a user row, and nothing when a
  read of the assembly throws.\<close>

lemma broadcastUserUpdate_silent:
  "filter (\<lambda>u. u_walletAddress u = W) (users db) = [] \<or> readFails he
   \<Longrightarrow> broadcastUserUpdate he db W h = h"
  by (auto simp add: broadcastUserUpdate_def)

lemma fold_sendToClient:
  "sent (fold (\<lambda>client. sendToClient (cl_ws client) message) cs h)
     = sent h @ map (\<lambda>client. (cl_ws client, message))
                    (filter (\<lambda>client. readyState h (cl_ws client) = OPEN) cs)
   \<and> readyState (fold (\<lambda>client. sendToClient (cl_ws client) message) cs h) = readyState h
   \<and> clients (fold (\<lambda>client. sendToClient (cl_ws client) message) cs h) = clients h"
  by (induction cs arbitrary: h) (simp_all add: sendToClient_def)

lemma filter_key_distinct:
  "distinct (map f xs) \<Longrightarrow> x \<in> set xs
   \<Longrightarrow> filter (\<lambda>y. f y = f x \<and> P y) xs = (if P x then [x] else [])"
  by (induction xs) (auto simp add: filter_empty_conv image_iff)

lemma filter_key_absent:
  "k \<notin> set (map f xs) \<Longrightarrow> filter (\<lambda>y. f y = k \<and> P y) xs = []"
  by (auto simp add: filter_empty_conv)

lemma frames_of_socket:
  "map snd (filter (\<lambda>(w, message). w = ws)
              (map (\<lambda>client. (cl_ws client, msg)) (filter P cs)))
   = map (\<lambda>client. msg) (filter (\<lambda>client. cl_ws client = ws \<and> P client) cs)"
  by (induction cs) auto

text \<open>
  C8. A \<^verbatim>\<open>trade\<close> event for a wallet \<open>W\<close> that has a user row reaches the hub, whose sockets
  are the keys of its client map, and the snapshot \<open>ud\<close> of \<open>W\<close> can be assembled. Every
  client with an open socket is then sent the \<^verbatim>\<open>USERS_UPDATE\<close> frame with \<open>ud\<close> once; it is
  sent the \<^verbatim>\<open>TRADE_UPDATE\<close> frame before it, once, exactly when its subscription set
  contains \<open>W\<close>. A socket that is not open, or is not a client's, is sent nothing.
\<close>

theorem trade_fan_out:
  assumes keys: "distinct (map cl_ws (clients h))"
      and reads: "\<not> readFails he"
      and row: "filter (\<lambda>u. u_walletAddress u = W) (users db) = u # us"
      and snap: "assembleUserData he db u = Inr ud"
  shows "(\<forall>client \<in> set (clients h).
           received (handleTradeUpdate he db W tradeId td h) (cl_ws client)
           = received h (cl_ws client)
             @ (if readyState h (cl_ws client) = OPEN
                then (if W \<in> cl_walletAddresses client
                      then [\<lparr>msg_type = TRADE_UPDATE, msg_data = TradeData W tradeId td\<rparr>]
                      else [])
                     @ [\<lparr>msg_type = USERS_UPDATE, msg_data = UserData ud\<rparr>]
                else []))
       \<and> (\<forall>ws. ws \<notin> set (map cl_ws (clients h))
             \<longrightarrow> received (handleTradeUpdate he db W tradeId td h) ws = received h ws)"
proof -
  let ?T = "\<lparr>msg_type = TRADE_UPDATE, msg_data = TradeData W tradeId td\<rparr>"
  let ?U = "\<lparr>msg_type = USERS_UPDATE, msg_data = UserData ud\<rparr>"
  let ?h1 = "fold (\<lambda>client. sendToClient (cl_ws client) ?T) (getSubscribedClients W h) h"
  have h1: "sent ?h1 = sent h @ map (\<lambda>client. (cl_ws client, ?T))
               (filter (\<lambda>client. W \<in> cl_walletAddresses client
                                 \<and> readyState h (cl_ws client) = OPEN) (clients h))"
    "readyState ?h1 = readyState h" "clients ?h1 = clients h"
    using fold_sendToClient [of ?T "getSubscribedClients W h" h]
    by (simp_all add: getSubscribedClients_def conj_commute)
  have "handleTradeUpdate he db W tradeId td h = broadcastToAll ?U ?h1"
    using reads row snap by (simp add: handleTradeUpdate_def broadcastUserUpdate_def Let_def)
  then have all: "sent (handleTradeUpdate he db W tradeId td h)
      = sent h @ map (\<lambda>client. (cl_ws client, ?T))
               (filter (\<lambda>client. W \<in> cl_walletAddresses client
                                 \<and> readyState h (cl_ws client) = OPEN) (clients h))
          @ map (\<lambda>client. (cl_ws client, ?U))
               (filter (\<lambda>client. readyState h (cl_ws client) = OPEN) (clients h))"
    using fold_sendToClient [of ?U "clients ?h1" ?h1] h1 by (simp add: broadcastToAll_def)
  have rec: "received (handleTradeUpdate he db W tradeId td h) ws
      = received h ws
        @ map (\<lambda>client. ?T) (filter (\<lambda>client. cl_ws client = ws
              \<and> (W \<in> cl_walletAddresses client \<and> readyState h (cl_ws client) = OPEN)) (clients h))
        @ map (\<lambda>client. ?U) (filter (\<lambda>client. cl_ws client = ws
              \<and> readyState h (cl_ws client) = OPEN) (clients h))" for ws
    unfolding received_def all by (simp add: frames_of_socket)
  show ?thesis
  proof (intro conjI ballI allI impI)
    fix client assume c: "client \<in> set (clients h)"
    show "received (handleTradeUpdate he db W tradeId td h) (cl_ws client)
           = received h (cl_ws client)
             @ (if readyState h (cl_ws client) = OPEN
                then (if W \<in> cl_walletAddresses client then [?T] else []) @ [?U]
                else [])"
      unfolding rec using filter_key_distinct [OF keys c] by simp
  next
    fix ws assume "ws \<notin> set (map cl_ws (clients h))"
    then show "received (handleTradeUpdate he db W tradeId td h) ws = received h ws"
      unfolding rec using filter_key_absent [of ws cl_ws "clients h"] by simp
  qed
qed

theorem trade_fan_out_witness:
  "distinct (map cl_ws (clients exHub))
   \<and> \<not> readFails exHubEnv
   \<and> filter (\<lambda>u. u_walletAddress u = exOtherWallet) (users exStore) = [exOtherUser]
   \<and> assembleUserData exHubEnv exStore exOtherUser = Inr exOtherSnapshot
   \<and> exOtherWallet \<notin> cl_walletAddresses (exClient 1 {exWallet})
   \<and> exOtherWallet \<in> cl_walletAddresses (exClient 2 {exWallet, exOtherWallet})
   \<and> received (handleTradeUpdate exHubEnv exStore exOtherWallet 0 exTrade exHub) 1
       = [\<lparr>msg_type = USERS_UPDATE, msg_data = UserData exOtherSnapshot\<rparr>]
   \<and> received (handleTradeUpdate exHubEnv exStore exOtherWallet 0 exTrade exHub) 2
       = [\<lparr>msg_type = TRADE_UPDATE, msg_data = TradeData exOtherWallet 0 exTrade\<rparr>,
          \<lparr>msg_type = USERS_UPDATE, msg_data = UserData exOtherSnapshot\<rparr>]
   \<and> received (handleTradeUpdate exHubEnv exStore exOtherWallet 0 exTrade exHub) 3 = []"
proof -
  have keys: "distinct (map cl_ws (clients exHub))"
    and reads: "\<not> readFails exHubEnv"
    and row: "filter (\<lambda>u. u_walletAddress u = exOtherWallet) (users exStore) = exOtherUser # []"
    and snap: "assembleUserData exHubEnv exStore exOtherUser = Inr exOtherSnapshot"
    by (simp_all add: assembleUserData_def latestTrade_def selectLastPnl_def bindE_def
        hub_example_defs Let_def)
  have subs: "exOtherWallet \<notin> cl_walletAddresses (exClient 1 {exWallet})"
             "exOtherWallet \<in> cl_walletAddresses (exClient 2 {exWallet, exOtherWallet})"
    by (simp_all add: exClient_def exWallet_def exOtherWallet_def)
  have hub: "clients exHub = [exClient 1 {exWallet}, exClient 2 {exWallet, exOtherWallet}]"
            "cl_ws (exClient 1 {exWallet}) = 1"
            "cl_ws (exClient 2 {exWallet, exOtherWallet}) = 2"
            "readyState exHub 1 = OPEN" "readyState exHub 2 = OPEN"
            "received exHub 1 = []" "received exHub 2 = []" "received exHub 3 = []"
    by (simp_all add: exHub_def exClient_def received_def)
  note fan = trade_fan_out [OF keys reads row snap, of 0 exTrade]
  have one: "received (handleTradeUpdate exHubEnv exStore exOtherWallet 0 exTrade exHub) 1
       = [\<lparr>msg_type = USERS_UPDATE, msg_data = UserData exOtherSnapshot\<rparr>]"
    using fan [THEN conjunct1, THEN bspec, of "exClient 1 {exWallet}"] subs hub by simp
  have two: "received (handleTradeUpdate exHubEnv exStore exOtherWallet 0 exTrade exHub) 2
       = [\<lparr>msg_type = TRADE_UPDATE, msg_data = TradeData exOtherWallet 0 exTrade\<rparr>,
          \<lparr>msg_type = USERS_UPDATE, msg_data = UserData exOtherSnapshot\<rparr>]"
    using fan [THEN conjunct1, THEN bspec, of "exClient 2 {exWallet, exOtherWallet}"] subs hub
    by simp
  have three: "received (handleTradeUpdate exHubEnv exStore exOtherWallet 0 exTrade exHub) 3 = []"
    using fan [THEN conjunct2, THEN spec, of 3] hub by simp
  show ?thesis
    using keys reads row snap subs one two three by simp
qed

lemma map_replace_same:
  "distinct (map f xs) \<Longrightarrow> find (\<lambda>c. f c = k) xs = Some x
   \<Longrightarrow> map (\<lambda>c. if f c = k then x else c) xs = xs"
  by (induction xs) (auto simp add: image_iff split: if_splits intro!: map_idI)

lemma find_replace:
  "find (\<lambda>c. f c = k) xs = Some x \<Longrightarrow> f y = k
   \<Longrightarrow> find (\<lambda>c. f c = k) (map (\<lambda>c. if f c = k then y else c) xs) = Some y"
  by (induction xs) (auto split: if_splits)

text \<open>
  C10. A client of the hub with an open socket sends \<^verbatim>\<open>UNSUBSCRIBE_WALLET\<close> for a wallet
  \<open>W\<close>. The hub replies on that socket with \<^verbatim>\<open>UNSUBSCRIBE_WALLET\<close> carrying \<open>W\<close> and
  \<^verbatim>\<open>success: true\<close>, whatever the client's subscriptions are. When neither of the client's
  two sets holds \<open>W\<close> (never subscribed, or unsubscribed before), the client map is left as
  it was. Sending the frame a second time changes no client and is answered in the same
  way.
\<close>

theorem unsubscribe_is_idempotent:
  assumes client: "find (\<lambda>c. cl_ws c = ws) (clients h) = Some client"
      and keys: "distinct (map cl_ws (clients h))"
      and opened: "readyState h ws = OPEN"
  shows "sent (handleMessage ws (Parsed ''UNSUBSCRIBE_WALLET'' (Some W)) h)
           = sent h @ [(ws, \<lparr>msg_type = UNSUBSCRIBE_WALLET, msg_data = SubscriptionData W True\<rparr>)]
       \<and> (W \<notin> cl_walletAddresses client \<and> ''wallet:'' @ W \<notin> cl_subscriptions client
            \<longrightarrow> clients (handleMessage ws (Parsed ''UNSUBSCRIBE_WALLET'' (Some W)) h) = clients h)
       \<and> clients (handleMessage ws (Parsed ''UNSUBSCRIBE_WALLET'' (Some W))
                    (handleMessage ws (Parsed ''UNSUBSCRIBE_WALLET'' (Some W)) h))
           = clients (handleMessage ws (Parsed ''UNSUBSCRIBE_WALLET'' (Some W)) h)
       \<and> sent (handleMessage ws (Parsed ''UNSUBSCRIBE_WALLET'' (Some W))
                    (handleMessage ws (Parsed ''UNSUBSCRIBE_WALLET'' (Some W)) h))
           = sent h @ [(ws, \<lparr>msg_type = UNSUBSCRIBE_WALLET, msg_data = SubscriptionData W True\<rparr>),
                       (ws, \<lparr>msg_type = UNSUBSCRIBE_WALLET, msg_data = SubscriptionData W True\<rparr>)]"
proof -
  let ?U = "handleMessage ws (Parsed ''UNSUBSCRIBE_WALLET'' (Some W))"
  let ?reply = "(ws, \<lparr>msg_type = UNSUBSCRIBE_WALLET, msg_data = SubscriptionData W True\<rparr>)"
  let ?c1 = "client\<lparr>cl_walletAddresses := cl_walletAddresses client - {W},
                    cl_subscriptions := cl_subscriptions client - {''wallet:'' @ W}\<rparr>"
  have wsc: "cl_ws client = ws"
    using client by (auto dest: find_Some_iff [THEN iffD1])
  have step: "?U g = g\<lparr>clients := map (\<lambda>c. if cl_ws c = ws
                 then cl\<lparr>cl_walletAddresses := cl_walletAddresses cl - {W},
                         cl_subscriptions := cl_subscriptions cl - {''wallet:'' @ W}\<rparr>
                 else c) (clients g),
               sent := sent g @ [?reply]\<rparr>"
    if "find (\<lambda>c. cl_ws c = ws) (clients g) = Some cl" "readyState g ws = OPEN" "cl_ws cl = ws"
    for g cl
    using that
    by (simp add: handleMessage_def handleUnsubscribeWallet_def setClient_def sendToClient_def)
  have u1: "?U h = h\<lparr>clients := map (\<lambda>c. if cl_ws c = ws then ?c1 else c) (clients h),
                     sent := sent h @ [?reply]\<rparr>"
    using step [OF client opened wsc] .
  have f1: "find (\<lambda>c. cl_ws c = ws) (clients (?U h)) = Some ?c1"
    unfolding u1 using find_replace [OF client, of ?c1] wsc by simp
  have u2: "?U (?U h) = (?U h)\<lparr>clients := map (\<lambda>c. if cl_ws c = ws then ?c1 else c)
                                              (clients (?U h)),
                               sent := sent (?U h) @ [?reply]\<rparr>"
    using step [OF f1] opened wsc unfolding u1 by simp
  have same: "clients (?U h) = clients h"
    if absent: "W \<notin> cl_walletAddresses client \<and> ''wallet:'' @ W \<notin> cl_subscriptions client"
  proof -
    have "cl_walletAddresses client - {W} = cl_walletAddresses client"
         "cl_subscriptions client - {''wallet:'' @ W} = cl_subscriptions client"
      using absent by auto
    then have c1: "?c1 = client" by simp
    have "clients (?U h) = map (\<lambda>c. if cl_ws c = ws then client else c) (clients h)"
      unfolding u1 c1 by simp
    then show ?thesis
      using map_replace_same [OF keys client] by simp
  qed
  have twice: "clients (?U (?U h)) = clients (?U h)"
    unfolding u2 unfolding u1 by (simp add: comp_def cong: if_cong)
  show ?thesis
    using u1 u2 same twice by simp
qed

theorem unsubscribe_is_idempotent_witness:
  "find (\<lambda>c. cl_ws c = 1) (clients exHub) = Some (exClient 1 {exWallet})
   \<and> distinct (map cl_ws (clients exHub))
   \<and> readyState exHub 1 = OPEN
   \<and> exOtherWallet \<notin> cl_walletAddresses (exClient 1 {exWallet})
   \<and> ''wallet:'' @ exOtherWallet \<notin> cl_subscriptions (exClient 1 {exWallet})
   \<and> sent (handleMessage 1 (Parsed ''UNSUBSCRIBE_WALLET'' (Some exOtherWallet)) exHub)
       = [(1, \<lparr>msg_type = UNSUBSCRIBE_WALLET, msg_data = SubscriptionData exOtherWallet True\<rparr>)]
   \<and> clients (handleMessage 1 (Parsed ''UNSUBSCRIBE_WALLET'' (Some exOtherWallet)) exHub)
       = clients exHub"
proof -
  have client: "find (\<lambda>c. cl_ws c = 1) (clients exHub) = Some (exClient 1 {exWallet})"
    and keys: "distinct (map cl_ws (clients exHub))"
    and opened: "readyState exHub 1 = OPEN"
    by (simp_all add: exHub_def exClient_def)
  have absent: "exOtherWallet \<notin> cl_walletAddresses (exClient 1 {exWallet})"
               "''wallet:'' @ exOtherWallet \<notin> cl_subscriptions (exClient 1 {exWallet})"
    by (simp_all add: exClient_def exWallet_def exOtherWallet_def)
  have start: "sent exHub = []"
    by (simp add: exHub_def)
  note u = unsubscribe_is_idempotent [OF client keys opened, of exOtherWallet]
  have reply: "sent (handleMessage 1 (Parsed ''UNSUBSCRIBE_WALLET'' (Some exOtherWallet)) exHub)
       = [(1, \<lparr>msg_type = UNSUBSCRIBE_WALLET, msg_data = SubscriptionData exOtherWallet True\<rparr>)]"
    using u start by simp
  have kept: "clients (handleMessage 1 (Parsed ''UNSUBSCRIBE_WALLET'' (Some exOtherWallet)) exHub)
       = clients exHub"
    using u absent by blast
  show ?thesis
    by (intro conjI) (fact client keys opened absent reply kept)+
qed

end
